theory Spec2Isabelle
  imports Main "HOL-Library.Multiset"
begin

section \<open>Data model\<close>

text \<open>
  The \<^verbatim>\<open>sync_status\<close> column holds one of the three literals the services
  write; the \<^verbatim>\<open>operation\<close> column one of the three literals passed to the queue
  inserts; a per-item result of the remote carries one of three status literals.
\<close>

datatype sync_status = Pending | Synced | Error

datatype operation = Create | Update | Delete

datatype item_status = Success | Conflict | Failure

text \<open>
  A \<^verbatim>\<open>Date\<close> is its \<^verbatim>\<open>getTime()\<close> value, an integer number of
  milliseconds (valid dates only); the ISO text stored in a column is identified with
  the date it denotes.
\<close>

type_synonym timestamp = int

text \<open>
  A row of table \<^verbatim>\<open>tasks\<close>, with the columns the statements of the services
  name. \<^verbatim>\<open>completed\<close> and \<^verbatim>\<open>is_deleted\<close> are integer columns.
\<close>

record task_row =
  row_id :: string
  row_title :: string
  row_description :: "string option"
  row_completed :: int
  row_created_at :: timestamp
  row_updated_at :: timestamp
  row_is_deleted :: int
  row_sync_status :: sync_status
  row_server_id :: "string option"
  row_last_synced_at :: "timestamp option"

text \<open>The \<^verbatim>\<open>Task\<close> object that \<^verbatim>\<open>mapRowToTask\<close> builds.\<close>

record task =
  t_id :: string
  t_title :: string
  t_description :: "string option"
  t_completed :: bool
  t_created_at :: timestamp
  t_updated_at :: timestamp
  t_is_deleted :: bool
  t_sync_status :: sync_status
  t_server_id :: "string option"
  t_last_synced_at :: "timestamp option"

text \<open>
  \<^verbatim>\<open>Partial<Task>\<close> as the request handlers pass it to \<^verbatim>\<open>createTask\<close>
  and \<^verbatim>\<open>updateTask\<close>: an absent field is \<open>None\<close>.
\<close>

record task_input =
  in_title :: "string option"
  in_description :: "string option"
  in_completed :: "bool option"

text \<open>The snapshot \<^verbatim>\<open>dataForQueue\<close> that is serialised into a queue entry.\<close>

record queue_data =
  d_id :: string
  d_title :: "string option"
  d_description :: "string option"
  d_completed :: "bool option"
  d_updated_at :: timestamp

text \<open>
  A row of table \<^verbatim>\<open>sync_queue\<close>; \<^verbatim>\<open>sync\<close> maps each row to a
  \<^verbatim>\<open>SyncQueueItem\<close> with the same fields, so one record serves for both.
\<close>

record queue_item =
  q_id :: string
  q_task_id :: string
  q_operation :: operation
  q_data :: queue_data
  q_created_at :: timestamp
  q_retry_count :: nat
  q_error_message :: "string option"

text \<open>
  The database: both tables in insertion order. No key constraint is modelled: a
  \<^verbatim>\<open>WHERE id = ?\<close> update touches every row with that id and
  \<^verbatim>\<open>db.get\<close> returns the first one.
\<close>

record database =
  tasks :: "task_row list"
  sync_queue :: "queue_item list"

section \<open>Task service\<close>

datatype task_error = ValidationError string | WriteFailed

text \<open>
  What a call of the task service takes from outside: the clock reading, the two
  identifiers \<^verbatim>\<open>uuidv4()\<close> returns, and whether the first and the second
  \<^verbatim>\<open>db.run\<close> of the call reject.
\<close>

record op_env =
  clock :: timestamp
  new_task_id :: string
  new_queue_id :: string
  store_write_fails :: bool
  queue_write_fails :: bool

definition mapRowToTask :: "task_row \<Rightarrow> task" where
  "mapRowToTask row =
     \<lparr> t_id = row_id row,
       t_title = row_title row,
       t_description = row_description row,
       t_completed = (row_completed row = 1),
       t_created_at = row_created_at row,
       t_updated_at = row_updated_at row,
       t_is_deleted = (row_is_deleted row = 1),
       t_sync_status = row_sync_status row,
       t_server_id = row_server_id row,
       t_last_synced_at = row_last_synced_at row \<rparr>"

definition selectTask :: "database \<Rightarrow> string \<Rightarrow> task_row option" where
  "selectTask db i = find (\<lambda>r. row_id r = i) (tasks db)"

definition getTask :: "database \<Rightarrow> string \<Rightarrow> task option" where
  "getTask db i =
     (case selectTask db i of
        None \<Rightarrow> None
      | Some row \<Rightarrow> if row_is_deleted row = 1 then None else Some (mapRowToTask row))"

text \<open>
  Modelled from the spec: the column defaults of table \<^verbatim>\<open>sync_queue\<close>, whose
  schema is not among the sources. An insert names only id, task_id, operation and data;
  \<^verbatim>\<open>created_at\<close> is the enqueue time, \<^verbatim>\<open>retry_count\<close> starts at 0 and
  \<^verbatim>\<open>error_message\<close> is absent.
\<close>

definition insertQueue ::
  "timestamp \<Rightarrow> string \<Rightarrow> string \<Rightarrow> operation \<Rightarrow> queue_data \<Rightarrow> database \<Rightarrow> database" where
  "insertQueue now qid tid op dat db =
     db\<lparr> sync_queue := sync_queue db @
       [\<lparr> q_id = qid, q_task_id = tid, q_operation = op, q_data = dat,
          q_created_at = now, q_retry_count = 0, q_error_message = None \<rparr>] \<rparr>"

definition createTask ::
  "op_env \<Rightarrow> database \<Rightarrow> task_input \<Rightarrow> (task_error + task option) \<times> database" where
  "createTask env db taskData =
     (case in_title taskData of
        None \<Rightarrow> (Inl (ValidationError ''Title is required''), db)
      | Some title \<Rightarrow>
          if title = [] then (Inl (ValidationError ''Title is required''), db)
          else
            let i = new_task_id env;
                now = clock env;
                completed = (case in_completed taskData of None \<Rightarrow> False | Some c \<Rightarrow> c)
            in
              if store_write_fails env then (Inl WriteFailed, db)
              else
                let db1 = db\<lparr> tasks := tasks db @
                      [\<lparr> row_id = i, row_title = title,
                         row_description = in_description taskData,
                         row_completed = (if completed then 1 else 0),
                         row_created_at = now, row_updated_at = now,
                         row_is_deleted = 0, row_sync_status = Pending,
                         row_server_id = None, row_last_synced_at = None \<rparr>] \<rparr>;
                    dataForQueue =
                      \<lparr> d_id = i, d_title = Some title,
                        d_description = in_description taskData,
                        d_completed = Some completed, d_updated_at = now \<rparr>
                in
                  if queue_write_fails env then (Inl WriteFailed, db1)
                  else
                    let db2 = insertQueue now (new_queue_id env) i Create dataForQueue db1
                    in (Inr (getTask db2 i), db2))"

definition updateTask ::
  "op_env \<Rightarrow> database \<Rightarrow> string \<Rightarrow> task_input \<Rightarrow> (task_error + task option) \<times> database" where
  "updateTask env db i updates =
     (case selectTask db i of
        None \<Rightarrow> (Inr None, db)
      | Some existing \<Rightarrow>
          let title = (case in_title updates of None \<Rightarrow> row_title existing | Some t \<Rightarrow> t);
              description =
                (case in_description updates of
                   None \<Rightarrow> row_description existing | Some d \<Rightarrow> Some d);
              completed =
                (case in_completed updates of
                   Some c \<Rightarrow> (if c then 1 else 0) | None \<Rightarrow> row_completed existing);
              now = clock env
          in
            if store_write_fails env then (Inl WriteFailed, db)
            else
              let db1 = db\<lparr> tasks :=
                    map (\<lambda>r. if row_id r = i
                          then r\<lparr> row_title := title, row_description := description,
                                  row_completed := completed, row_updated_at := now,
                                  row_sync_status := Pending \<rparr>
                          else r) (tasks db) \<rparr>;
                  dataForQueue =
                    \<lparr> d_id = i, d_title = Some title, d_description = description,
                      d_completed = Some (completed = 1), d_updated_at = now \<rparr>
              in
                if queue_write_fails env then (Inl WriteFailed, db1)
                else
                  let db2 = insertQueue now (new_queue_id env) i Update dataForQueue db1
                  in (Inr (getTask db2 i), db2))"

definition deleteTask ::
  "op_env \<Rightarrow> database \<Rightarrow> string \<Rightarrow> (task_error + bool) \<times> database" where
  "deleteTask env db i =
     (case selectTask db i of
        None \<Rightarrow> (Inr False, db)
      | Some existing \<Rightarrow>
          let now = clock env
          in
            if store_write_fails env then (Inl WriteFailed, db)
            else
              let db1 = db\<lparr> tasks :=
                    map (\<lambda>r. if row_id r = i
                          then r\<lparr> row_is_deleted := 1, row_updated_at := now,
                                  row_sync_status := Pending \<rparr>
                          else r) (tasks db) \<rparr>;
                  dataForQueue =
                    \<lparr> d_id = i, d_title = None, d_description = None,
                      d_completed = None, d_updated_at = now \<rparr>
              in
                if queue_write_fails env then (Inl WriteFailed, db1)
                else
                  (Inr True, insertQueue now (new_queue_id env) i Delete dataForQueue db1))"

section \<open>Conflict resolver\<close>

definition resolveConflict :: "task \<Rightarrow> task \<Rightarrow> task" where
  "resolveConflict localTask serverTask =
     (let localUpdated = t_updated_at localTask;
          serverUpdated = t_updated_at serverTask
      in if localUpdated \<ge> serverUpdated then localTask else serverTask)"

section \<open>JavaScript numbers, \<^verbatim>\<open>parseInt\<close> and \<^verbatim>\<open>slice\<close>\<close>

text \<open>
  The batch size is what \<^verbatim>\<open>parseInt(s, 10)\<close> returns: an integer or
  \<^verbatim>\<open>NaN\<close>. The loop counter of \<^verbatim>\<open>sync\<close> is the sum of such
  numbers. Integers are unbounded here; a JavaScript number is exact below \<open>2 ^ 53\<close>.
\<close>

datatype jsnum = NaN | Num int

definition isWhiteSpace :: "char \<Rightarrow> bool" where
  "isWhiteSpace c = ((of_char c :: nat) \<in> {9, 10, 11, 12, 13, 32})"

definition isDigit :: "char \<Rightarrow> bool" where
  "isDigit c = (48 \<le> (of_char c :: nat) \<and> (of_char c :: nat) \<le> 57)"

fun digitsValue :: "nat \<Rightarrow> string \<Rightarrow> nat" where
  "digitsValue acc [] = acc"
| "digitsValue acc (c # cs) = digitsValue (acc * 10 + (of_char c - 48)) cs"

text \<open>
  \<^verbatim>\<open>parseInt(s, 10)\<close>: leading white space is dropped (the ASCII white space
  characters; \<open>string\<close> has no others), then an optional sign, then the longest run of
  decimal digits; no digit gives \<^verbatim>\<open>NaN\<close>.
\<close>

definition parseInt10 :: "string \<Rightarrow> jsnum" where
  "parseInt10 s =
     (let s1 = dropWhile isWhiteSpace s;
          neg = (case s1 of [] \<Rightarrow> False | c # _ \<Rightarrow> c = CHR ''-'');
          s2 = (case s1 of [] \<Rightarrow> []
                | c # cs \<Rightarrow> if c = CHR ''-'' \<or> c = CHR ''+'' then cs else s1);
          ds = takeWhile isDigit s2
      in if ds = [] then NaN
         else Num ((if neg then - 1 else 1) * int (digitsValue 0 ds)))"

fun js_add :: "jsnum \<Rightarrow> jsnum \<Rightarrow> jsnum" where
  "js_add (Num a) (Num b) = Num (a + b)"
| "js_add _ _ = NaN"

fun js_less_length :: "jsnum \<Rightarrow> nat \<Rightarrow> bool" where
  "js_less_length (Num a) n = (a < int n)"
| "js_less_length NaN n = False"

fun toInteger :: "jsnum \<Rightarrow> int" where
  "toInteger (Num a) = a"
| "toInteger NaN = 0"

definition relativeIndex :: "int \<Rightarrow> nat \<Rightarrow> nat" where
  "relativeIndex k len = (if k < 0 then nat (max (int len + k) 0) else min (nat k) len)"

text \<open>\<^verbatim>\<open>Array.prototype.slice(start, end)\<close>.\<close>

definition js_slice :: "'a list \<Rightarrow> jsnum \<Rightarrow> jsnum \<Rightarrow> 'a list" where
  "js_slice xs start fin =
     (let len = length xs;
          k = relativeIndex (toInteger start) len;
          final = relativeIndex (toInteger fin) len
      in take (final - k) (drop k xs))"

section \<open>Sync service\<close>

record processed_item =
  p_client_id :: string
  p_status :: item_status
  p_server_id :: "string option"
  p_resolved_data :: "task option"
  p_error :: "string option"

text \<open>
  The outcome of \<^verbatim>\<open>processBatch\<close> and of reading the body:
  \<open>Rejected\<close> when the \<^verbatim>\<open>try\<close> block throws before any result is applied
  (\<^verbatim>\<open>axios.post\<close> throws on a transport error or a non-success status, or the
  body has no list of results to iterate), with the message of the error; \<open>Accepted\<close>
  with the list \<^verbatim>\<open>processed_items\<close> otherwise. The body is parsed JSON: the
  \<^verbatim>\<open>resolved_data\<close> of a result holds its \<^verbatim>\<open>updated_at\<close> as text,
  which \<^verbatim>\<open>new Date\<close> reads but which is no \<^verbatim>\<open>Date\<close> object.
\<close>

datatype batch_reply = Rejected string | Accepted "processed_item list"

record sync_failure =
  e_task_id :: string
  e_operation :: operation
  e_error :: string
  e_timestamp :: timestamp

record sync_result =
  success :: bool
  synced_items :: nat
  failed_items :: nat
  errors :: "sync_failure list"

text \<open>
  What a sync request takes from outside: the outcome of the health request, the
  environment variable \<^verbatim>\<open>SYNC_BATCH_SIZE\<close>, the remote's reply to the
  \<open>k\<close>-th transmission of the run, and the clock reading. One reading stands for
  every time taken during the run. Every statement on the database is taken to succeed
  during a sync run.
\<close>

record sync_env =
  health_ok :: bool
  batch_size_var :: "string option"
  remote :: "nat \<Rightarrow> queue_item list \<Rightarrow> batch_reply"
  sync_clock :: timestamp

text \<open>
  The variables of \<^verbatim>\<open>sync\<close>: the database, the two counters and the error
  list, and the batches handed to \<^verbatim>\<open>processBatch\<close> so far.
\<close>

record run_state =
  rs_db :: database
  rs_synced :: nat
  rs_failed :: nat
  rs_errors :: "sync_failure list"
  rs_sent :: "queue_item list list"

definition updateSyncStatus ::
  "timestamp \<Rightarrow> database \<Rightarrow> string \<Rightarrow> sync_status \<Rightarrow> string option \<Rightarrow> database" where
  "updateSyncStatus now db taskId status server_id =
     (if status = Synced then
        db\<lparr> tasks :=
              map (\<lambda>r. if row_id r = taskId
                    then r\<lparr> row_sync_status := Synced,
                            row_server_id :=
                              (case server_id of None \<Rightarrow> row_server_id r | Some s \<Rightarrow> Some s),
                            row_last_synced_at := Some now \<rparr>
                    else r) (tasks db),
            sync_queue := filter (\<lambda>q. q_task_id q \<noteq> taskId) (sync_queue db) \<rparr>
      else
        db\<lparr> tasks :=
              map (\<lambda>r. if row_id r = taskId then r\<lparr> row_sync_status := Error \<rparr> else r)
                (tasks db) \<rparr>)"

text \<open>
  \<^verbatim>\<open>(item.retry_count || 0) + 1\<close>: the count is a natural number (the column
  starts at 0), so the default changes nothing.
\<close>

definition handleSyncError :: "timestamp \<Rightarrow> database \<Rightarrow> queue_item \<Rightarrow> string \<Rightarrow> database" where
  "handleSyncError now db item message =
     (let newCount = q_retry_count item + 1;
          db1 = db\<lparr> sync_queue :=
                  map (\<lambda>q. if q_id q = q_id item
                        then q\<lparr> q_retry_count := newCount, q_error_message := Some message \<rparr>
                        else q) (sync_queue db) \<rparr>
      in if newCount \<ge> 3 then updateSyncStatus now db1 (q_task_id item) Error None else db1)"

text \<open>
  The two statements that persist a resolved conflict: the winner's fields are written
  to the rows with the winner's id, and the queue entries of that id are deleted.
\<close>

definition persistResolved ::
  "timestamp \<Rightarrow> database \<Rightarrow> task \<Rightarrow> string option \<Rightarrow> database" where
  "persistResolved now db resolved server_id =
     db\<lparr> tasks :=
           map (\<lambda>r. if row_id r = t_id resolved
                 then r\<lparr> row_title := t_title resolved,
                         row_description := t_description resolved,
                         row_completed := (if t_completed resolved then 1 else 0),
                         row_updated_at := t_updated_at resolved,
                         row_sync_status := Synced,
                         row_server_id := server_id,
                         row_last_synced_at := Some now \<rparr>
                 else r) (tasks db),
         sync_queue := filter (\<lambda>q. q_task_id q \<noteq> t_id resolved) (sync_queue db) \<rparr>"

text \<open>
  The three statements every failure branch of \<^verbatim>\<open>sync\<close> repeats:
  \<^verbatim>\<open>handleSyncError\<close> with the error, \<^verbatim>\<open>failed += 1\<close>, and the push
  onto \<^verbatim>\<open>errors\<close> of the reported text.
\<close>

definition recordFailure ::
  "timestamp \<Rightarrow> queue_item \<Rightarrow> string \<Rightarrow> string \<Rightarrow> run_state \<Rightarrow> run_state" where
  "recordFailure now item message reported st =
     st\<lparr> rs_db := handleSyncError now (rs_db st) item message,
         rs_failed := rs_failed st + 1,
         rs_errors := rs_errors st @
           [\<lparr> e_task_id = q_task_id item, e_operation = q_operation item,
              e_error = reported, e_timestamp = now \<rparr>] \<rparr>"

text \<open>\<^verbatim>\<open>s || d\<close> on an optional string: absent and empty both give \<open>d\<close>.\<close>

definition orDefault :: "string option \<Rightarrow> string \<Rightarrow> string" where
  "orDefault s d = (case s of None \<Rightarrow> d | Some v \<Rightarrow> if v = [] then d else v)"

text \<open>
  The messages of the two \<^verbatim>\<open>TypeError\<close>s the loop body can throw: reading
  \<^verbatim>\<open>updated_at\<close> of \<^verbatim>\<open>null\<close> in \<^verbatim>\<open>resolveConflict\<close>, when
  \<^verbatim>\<open>getTask\<close> found no live task; and calling \<^verbatim>\<open>toISOString\<close> on the
  \<^verbatim>\<open>updated_at\<close> of the remote version, which is text.
\<close>

definition nullTaskMessage :: string where
  "nullTaskMessage = ''Cannot read properties of null (reading 'updated_at')''"

definition notADateMessage :: string where
  "notADateMessage = ''resolved.updated_at.toISOString is not a function''"

text \<open>
  The body of the loop over \<^verbatim>\<open>resp.processed_items\<close>, for one result:
  \<open>Inl\<close> is an exception thrown before any write, \<open>Inr\<close> the state after the body.
  In the conflict branch the winner is persisted only when it is the local task, whose
  \<^verbatim>\<open>updated_at\<close> is a \<^verbatim>\<open>Date\<close>; when \<^verbatim>\<open>resolveConflict\<close> returns
  the remote version, building the parameters of the update throws.
\<close>

definition applyProcessed ::
  "timestamp \<Rightarrow> queue_item list \<Rightarrow> processed_item \<Rightarrow> run_state \<Rightarrow> string + run_state" where
  "applyProcessed now batch processed st =
     (case find (\<lambda>b. q_task_id b = p_client_id processed) batch of
        None \<Rightarrow> Inr st
      | Some original \<Rightarrow>
          (case p_status processed of
             Success \<Rightarrow>
               Inr (st\<lparr> rs_db := updateSyncStatus now (rs_db st) (q_task_id original) Synced
                                   (p_server_id processed),
                        rs_synced := rs_synced st + 1 \<rparr>)
           | Conflict \<Rightarrow>
               (case p_resolved_data processed of
                  Some serverTask \<Rightarrow>
                    (case getTask (rs_db st) (q_task_id original) of
                       None \<Rightarrow> Inl nullTaskMessage
                     | Some localTask \<Rightarrow>
                         let resolved = resolveConflict localTask serverTask
                         in if t_updated_at localTask \<ge> t_updated_at serverTask
                            then Inr (st\<lparr> rs_db := persistResolved now (rs_db st) resolved
                                                   (p_server_id processed),
                                        rs_synced := rs_synced st + 1 \<rparr>)
                            else Inl notADateMessage)
                | None \<Rightarrow>
                    Inr (recordFailure now original ''Conflict without resolution data''
                           ''Conflict without resolution data'' st))
           | Failure \<Rightarrow>
               Inr (recordFailure now original (orDefault (p_error processed) ''Unknown error'')
                      (orDefault (p_error processed) ''Unknown error'') st)))"

text \<open>
  The loop over the results of one reply: it stops at the first exception, keeping what
  the earlier results wrote.
\<close>

fun applyResults ::
  "timestamp \<Rightarrow> queue_item list \<Rightarrow> processed_item list \<Rightarrow> run_state
     \<Rightarrow> string option \<times> run_state" where
  "applyResults now batch [] st = (None, st)"
| "applyResults now batch (p # ps) st =
     (case applyProcessed now batch p st of
        Inl message \<Rightarrow> (Some message, st)
      | Inr st' \<Rightarrow> applyResults now batch ps st')"

text \<open>The \<^verbatim>\<open>catch\<close> block: every item of the batch is recorded as failed.\<close>

definition batchFailed ::
  "timestamp \<Rightarrow> queue_item list \<Rightarrow> string \<Rightarrow> run_state \<Rightarrow> run_state" where
  "batchFailed now batch message st =
     foldl (\<lambda>s item. recordFailure now item message (orDefault (Some message) ''Batch failed'') s)
       st batch"

text \<open>One iteration of the loop over the batches: the \<^verbatim>\<open>try\<close> and its \<^verbatim>\<open>catch\<close>.\<close>

definition batchStep :: "sync_env \<Rightarrow> queue_item list \<Rightarrow> run_state \<Rightarrow> run_state" where
  "batchStep env batch st =
     (let st0 = st\<lparr> rs_sent := rs_sent st @ [batch] \<rparr>
      in case remote env (length (rs_sent st)) batch of
           Rejected message \<Rightarrow> batchFailed (sync_clock env) batch message st0
         | Accepted processed_items \<Rightarrow>
             (case applyResults (sync_clock env) batch processed_items st0 of
                (None, st1) \<Rightarrow> st1
              | (Some message, st1) \<Rightarrow> batchFailed (sync_clock env) batch message st1))"

text \<open>
  The \<^verbatim>\<open>for\<close> loop of \<^verbatim>\<open>sync\<close>. With a batch size that is not positive
  the counter never passes the length; the loop then has no result.
\<close>

partial_function (option) syncLoop ::
  "sync_env \<Rightarrow> jsnum \<Rightarrow> queue_item list \<Rightarrow> jsnum \<Rightarrow> run_state \<Rightarrow> run_state option" where
  "syncLoop env batchSize items i st =
     (if js_less_length i (length items)
      then syncLoop env batchSize items (js_add i batchSize)
             (batchStep env (js_slice items i (js_add i batchSize)) st)
      else Some st)"

text \<open>The iterations of that loop over a given list of batches, in order.\<close>

definition syncBatches :: "sync_env \<Rightarrow> run_state \<Rightarrow> queue_item list list \<Rightarrow> run_state" where
  "syncBatches env st batches = foldl (\<lambda>s batch. batchStep env batch s) st batches"

text \<open>
  Which results the loop body counts when it completes: a result matched to an entry of
  the batch adds to \<^verbatim>\<open>synced\<close> in the success branch and in the conflict branch
  with resolution data, and to \<^verbatim>\<open>failed\<close> in the conflict branch without
  resolution data and in the final \<^verbatim>\<open>else\<close> branch.
\<close>

definition countsSynced :: "queue_item list \<Rightarrow> processed_item \<Rightarrow> bool" where
  "countsSynced batch p =
     (find (\<lambda>b. q_task_id b = p_client_id p) batch \<noteq> None \<and>
      (p_status p = Success \<or> (p_status p = Conflict \<and> p_resolved_data p \<noteq> None)))"

definition countsFailed :: "queue_item list \<Rightarrow> processed_item \<Rightarrow> bool" where
  "countsFailed batch p =
     (find (\<lambda>b. q_task_id b = p_client_id p) batch \<noteq> None \<and>
      (p_status p = Failure \<or> (p_status p = Conflict \<and> p_resolved_data p = None)))"

definition configuredBatchSize :: "sync_env \<Rightarrow> jsnum" where
  "configuredBatchSize env =
     parseInt10 (case batch_size_var env of
                   None \<Rightarrow> ''50''
                 | Some s \<Rightarrow> if s = [] then ''50'' else s)"

text \<open>\<^verbatim>\<open>SELECT * FROM sync_queue ORDER BY created_at ASC\<close>; rows of equal time keep
  their insertion order.\<close>

definition readQueue :: "database \<Rightarrow> queue_item list" where
  "readQueue db = sort_key q_created_at (sync_queue db)"

definition initialState :: "database \<Rightarrow> run_state" where
  "initialState db =
     \<lparr> rs_db = db, rs_synced = 0, rs_failed = 0, rs_errors = [], rs_sent = [] \<rparr>"

text \<open>The run state when the first \<open>k\<close> of the given batches have been processed.\<close>

definition runAfter :: "sync_env \<Rightarrow> database \<Rightarrow> queue_item list list \<Rightarrow> nat \<Rightarrow> run_state" where
  "runAfter env db batches k = syncBatches env (initialState db) (take k batches)"

definition summary :: "run_state \<Rightarrow> sync_result \<times> database \<times> queue_item list list" where
  "summary st =
     (\<lparr> success = (rs_failed st = 0), synced_items = rs_synced st,
        failed_items = rs_failed st, errors = rs_errors st \<rparr>,
      rs_db st, rs_sent st)"

text \<open>
  \<^verbatim>\<open>sync\<close> returns its summary; the model returns with it the database it leaves
  and the batches it transmitted, in order. \<open>None\<close>: the call never returns.
\<close>

definition sync ::
  "sync_env \<Rightarrow> database \<Rightarrow> (sync_result \<times> database \<times> queue_item list list) option" where
  "sync env db =
     map_option summary
       (syncLoop env (configuredBatchSize env) (readQueue db) (Num 0) (initialState db))"

section \<open>The sync route\<close>

datatype http_response = Ok200 sync_result | Error503 string | Error500 string

definition checkConnectivity :: "sync_env \<Rightarrow> bool" where
  "checkConnectivity env = health_ok env"

text \<open>The handler of \<^verbatim>\<open>POST /sync\<close>.\<close>

definition postSync ::
  "sync_env \<Rightarrow> database \<Rightarrow> (http_response \<times> database \<times> queue_item list list) option" where
  "postSync env db =
     (if \<not> checkConnectivity env then Some (Error503 ''Server unreachable'', db, [])
      else map_option (\<lambda>(result, db', sent). (Ok200 result, db', sent)) (sync env db))"

section \<open>Consecutive groups\<close>

text \<open>
  The partition the specification describes: consecutive groups of \<open>n\<close> entries, the
  last one holding what is left.
\<close>

function chunks :: "nat \<Rightarrow> 'a list \<Rightarrow> 'a list list" where
  "chunks n xs = (if n = 0 \<or> xs = [] then [] else take n xs # chunks n (drop n xs))"
  by pat_completeness auto
termination
  by (relation "measure (\<lambda>(n, xs). length xs)") auto

declare chunks.simps [simp del]

section \<open>Example data\<close>

text \<open>Concrete rows, entries and environments on which the theorems below are run.\<close>

definition exampleRow :: "string \<Rightarrow> int \<Rightarrow> timestamp \<Rightarrow> task_row" where
  "exampleRow i deleted updated =
     \<lparr> row_id = i, row_title = ''Buy milk'', row_description = None, row_completed = 0,
       row_created_at = 100, row_updated_at = updated, row_is_deleted = deleted,
       row_sync_status = Pending, row_server_id = None, row_last_synced_at = None \<rparr>"

definition exampleEntry :: "string \<Rightarrow> string \<Rightarrow> operation \<Rightarrow> timestamp \<Rightarrow> nat \<Rightarrow> queue_item" where
  "exampleEntry qid tid op created retries =
     \<lparr> q_id = qid, q_task_id = tid, q_operation = op,
       q_data = \<lparr> d_id = tid, d_title = None, d_description = None, d_completed = None,
                  d_updated_at = created \<rparr>,
       q_created_at = created, q_retry_count = retries, q_error_message = None \<rparr>"

definition exampleOpEnv :: "bool \<Rightarrow> bool \<Rightarrow> op_env" where
  "exampleOpEnv store_fails queue_fails =
     \<lparr> clock = 500, new_task_id = ''t2'', new_queue_id = ''q2'',
       store_write_fails = store_fails, queue_write_fails = queue_fails \<rparr>"

definition exampleInput :: task_input where
  "exampleInput = \<lparr> in_title = Some ''Walk dog'', in_description = None, in_completed = None \<rparr>"

definition liveDb :: database where
  "liveDb = \<lparr> tasks = [exampleRow ''t1'' 0 100],
              sync_queue = [exampleEntry ''q1'' ''t1'' Create 100 0] \<rparr>"

definition deletedDb :: database where
  "deletedDb = \<lparr> tasks = [exampleRow ''t1'' 1 100], sync_queue = [] \<rparr>"

definition exampleSyncEnv ::
  "bool \<Rightarrow> string option \<Rightarrow> (nat \<Rightarrow> queue_item list \<Rightarrow> batch_reply) \<Rightarrow> sync_env" where
  "exampleSyncEnv online batch_var reply =
     \<lparr> health_ok = online, batch_size_var = batch_var, remote = reply, sync_clock = 900 \<rparr>"

definition exampleResult ::
  "string \<Rightarrow> item_status \<Rightarrow> string option \<Rightarrow> task option \<Rightarrow> string option \<Rightarrow> processed_item" where
  "exampleResult cid st sid resolved err =
     \<lparr> p_client_id = cid, p_status = st, p_server_id = sid, p_resolved_data = resolved,
       p_error = err \<rparr>"

definition noResults :: "nat \<Rightarrow> queue_item list \<Rightarrow> batch_reply" where
  "noResults k batch = Accepted []"

definition rejectSecond :: "nat \<Rightarrow> queue_item list \<Rightarrow> batch_reply" where
  "rejectSecond k batch = (if k = 1 then Rejected ''Network Error'' else Accepted [])"

definition unorderedDb :: database where
  "unorderedDb =
     \<lparr> tasks = [exampleRow ''t1'' 0 10, exampleRow ''t2'' 0 20, exampleRow ''t3'' 0 30],
       sync_queue = [exampleEntry ''q3'' ''t3'' Create 30 0,
                     exampleEntry ''q1'' ''t1'' Create 10 0,
                     exampleEntry ''q2'' ''t2'' Create 20 0] \<rparr>"

definition retriedDb :: database where
  "retriedDb =
     \<lparr> tasks = [exampleRow ''t1'' 0 100],
       sync_queue = [exampleEntry ''q1'' ''t1'' Update 100 2] \<rparr>"

definition rejectAll :: "nat \<Rightarrow> queue_item list \<Rightarrow> batch_reply" where
  "rejectAll k batch = Rejected ''Network Error''"





definition sameTaskDb :: database where
  "sameTaskDb =
     \<lparr> tasks = [exampleRow ''t1'' 0 200],
       sync_queue = [exampleEntry ''q1'' ''t1'' Create 100 0,
                     exampleEntry ''q2'' ''t1'' Update 200 0] \<rparr>"

definition twoErrorsForT1 :: "nat \<Rightarrow> queue_item list \<Rightarrow> batch_reply" where
  "twoErrorsForT1 k batch =
     Accepted [exampleResult ''t1'' Failure None None (Some ''Rejected''),
               exampleResult ''t1'' Failure None None (Some ''Rejected again'')]"



definition rejectFirst :: "nat \<Rightarrow> queue_item list \<Rightarrow> batch_reply" where
  "rejectFirst k batch =
     (if k = 0 then Rejected ''Network Error''
      else Accepted [exampleResult ''t3'' Success (Some ''srv-3'') None None])"

section \<open>Facts about the task service\<close>

lemmas example_defs = exampleRow_def exampleEntry_def exampleOpEnv_def exampleInput_def
  liveDb_def deletedDb_def

lemma find_fresh: "i \<notin> row_id ` set rows \<Longrightarrow> find (\<lambda>r. row_id r = i) (rows @ [r]) = (if row_id r = i then Some r else None)"
  by (induction rows) auto

lemma filter_fresh: "i \<notin> q_task_id ` set qs \<Longrightarrow> filter (\<lambda>q. q_task_id q = i) qs = []"
  by (induction qs) auto



lemma createTask_done:
  assumes "in_title taskData = Some title" "title \<noteq> []"
    and "\<not> store_write_fails env" "\<not> queue_write_fails env"
  shows "snd (createTask env db taskData) =
           \<lparr> tasks = tasks db @
               [\<lparr> row_id = new_task_id env, row_title = title,
                  row_description = in_description taskData,
                  row_completed = (if in_completed taskData = Some True then 1 else 0),
                  row_created_at = clock env, row_updated_at = clock env,
                  row_is_deleted = 0, row_sync_status = Pending,
                  row_server_id = None, row_last_synced_at = None \<rparr>],
             sync_queue = sync_queue db @
               [\<lparr> q_id = new_queue_id env, q_task_id = new_task_id env, q_operation = Create,
                  q_data = \<lparr> d_id = new_task_id env, d_title = Some title,
                             d_description = in_description taskData,
                             d_completed = Some (in_completed taskData = Some True),
                             d_updated_at = clock env \<rparr>,
                  q_created_at = clock env, q_retry_count = 0, q_error_message = None \<rparr>] \<rparr>"
    and "fst (createTask env db taskData) =
           Inr (getTask (snd (createTask env db taskData)) (new_task_id env))"
  using assms by (simp_all add: createTask_def Let_def insertQueue_def split: option.split)

lemma updateTask_done:
  assumes "selectTask db i = Some existing"
    and "\<not> store_write_fails env" "\<not> queue_write_fails env"
  shows "tasks (snd (updateTask env db i updates)) =
           map (\<lambda>r. if row_id r = i
                 then r\<lparr> row_title := (case in_title updates of None \<Rightarrow> row_title existing | Some t \<Rightarrow> t),
                         row_description :=
                           (case in_description updates of
                              None \<Rightarrow> row_description existing | Some d \<Rightarrow> Some d),
                         row_completed :=
                           (case in_completed updates of
                              Some c \<Rightarrow> (if c then 1 else 0) | None \<Rightarrow> row_completed existing),
                         row_updated_at := clock env, row_sync_status := Pending \<rparr>
                 else r) (tasks db)"
    and "\<exists>dat. sync_queue (snd (updateTask env db i updates)) = sync_queue db @
           [\<lparr> q_id = new_queue_id env, q_task_id = i, q_operation = Update, q_data = dat,
              q_created_at = clock env, q_retry_count = 0, q_error_message = None \<rparr>]"
    and "fst (updateTask env db i updates) = Inr (getTask (snd (updateTask env db i updates)) i)"
  using assms by (simp_all add: updateTask_def Let_def insertQueue_def)

lemma deleteTask_done:
  assumes "selectTask db i = Some existing"
    and "\<not> store_write_fails env" "\<not> queue_write_fails env"
  shows "tasks (snd (deleteTask env db i)) =
           map (\<lambda>r. if row_id r = i
                 then r\<lparr> row_is_deleted := 1, row_updated_at := clock env,
                         row_sync_status := Pending \<rparr>
                 else r) (tasks db)"
    and "\<exists>dat. sync_queue (snd (deleteTask env db i)) = sync_queue db @
           [\<lparr> q_id = new_queue_id env, q_task_id = i, q_operation = Delete, q_data = dat,
              q_created_at = clock env, q_retry_count = 0, q_error_message = None \<rparr>]"
    and "fst (deleteTask env db i) = Inr True"
  using assms by (simp_all add: deleteTask_def Let_def insertQueue_def)



lemma rewritten_rows:
  assumes "r \<in> set (map (\<lambda>x. if row_id x = i then f x else x) rows)" "row_id r = i"
    and "\<And>x. row_id (f x) = row_id x"
  shows "\<exists>x \<in> set rows. r = f x"
proof -
  from assms(1) obtain x where x: "x \<in> set rows" "r = (if row_id x = i then f x else x)"
    by auto
  show ?thesis
  proof (cases "row_id x = i")
    case True
    with x show ?thesis by auto
  next
    case False
    with x assms(2) show ?thesis by simp
  qed
qed

lemma updateTask_rows:
  assumes "selectTask db i = Some existing"
    and "\<not> store_write_fails env" "\<not> queue_write_fails env"
    and "r \<in> set (tasks (snd (updateTask env db i updates)))" "row_id r = i"
  shows "row_sync_status r = Pending \<and> row_updated_at r = clock env"
proof -
  from assms(4) have "r \<in> set (map (\<lambda>x. if row_id x = i
        then x\<lparr> row_title := (case in_title updates of None \<Rightarrow> row_title existing | Some t \<Rightarrow> t),
                row_description :=
                  (case in_description updates of
                     None \<Rightarrow> row_description existing | Some d \<Rightarrow> Some d),
                row_completed :=
                  (case in_completed updates of
                     Some c \<Rightarrow> (if c then 1 else 0) | None \<Rightarrow> row_completed existing),
                row_updated_at := clock env, row_sync_status := Pending \<rparr>
        else x) (tasks db))"
    by (simp only: updateTask_done(1) [OF assms(1-3)])
  from rewritten_rows [OF this assms(5)] obtain x where
    "r = x\<lparr> row_title := (case in_title updates of None \<Rightarrow> row_title existing | Some t \<Rightarrow> t),
                row_description :=
                  (case in_description updates of
                     None \<Rightarrow> row_description existing | Some d \<Rightarrow> Some d),
                row_completed :=
                  (case in_completed updates of
                     Some c \<Rightarrow> (if c then 1 else 0) | None \<Rightarrow> row_completed existing),
                row_updated_at := clock env, row_sync_status := Pending \<rparr>"
    by auto
  then show ?thesis by simp
qed

lemma deleteTask_rows:
  assumes "selectTask db i = Some existing"
    and "\<not> store_write_fails env" "\<not> queue_write_fails env"
    and "r \<in> set (tasks (snd (deleteTask env db i)))" "row_id r = i"
  shows "row_sync_status r = Pending \<and> row_updated_at r = clock env \<and> row_is_deleted r = 1"
proof -
  from assms(4) have "r \<in> set (map (\<lambda>x. if row_id x = i
        then x\<lparr> row_is_deleted := 1, row_updated_at := clock env, row_sync_status := Pending \<rparr>
        else x) (tasks db))"
    by (simp only: deleteTask_done(1) [OF assms(1-3)])
  from rewritten_rows [OF this assms(5)] obtain x where
    "r = x\<lparr> row_is_deleted := 1, row_updated_at := clock env, row_sync_status := Pending \<rparr>"
    by auto
  then show ?thesis by simp
qed


lemma createTask_result:
  assumes "in_title taskData = Some title" "title \<noteq> []"
    and "\<not> store_write_fails env" "\<not> queue_write_fails env"
    and "new_task_id env \<notin> row_id ` set (tasks db)"
  shows "\<exists>created. fst (createTask env db taskData) = Inr (Some created) \<and>
           t_id created = new_task_id env \<and> t_title created = title \<and>
           t_sync_status created = Pending \<and> t_updated_at created = clock env"
  unfolding createTask_done(2) [OF assms(1-4)] createTask_done(1) [OF assms(1-4)]
  using assms(5) by (simp add: getTask_def selectTask_def find_fresh mapRowToTask_def)

lemma createTask_rows:
  assumes "in_title taskData = Some title" "title \<noteq> []"
    and "\<not> store_write_fails env" "\<not> queue_write_fails env"
    and "new_task_id env \<notin> row_id ` set (tasks db)"
    and "r \<in> set (tasks (snd (createTask env db taskData)))" "row_id r = new_task_id env"
  shows "row_sync_status r = Pending \<and> row_updated_at r = clock env"
proof -
  have "r \<notin> set (tasks db)"
    using assms(5,7) by force
  with assms(6) show ?thesis
    unfolding createTask_done(1) [OF assms(1-4)] by auto
qed

lemma createTask_queue:
  assumes "in_title taskData = Some title" "title \<noteq> []"
    and "\<not> store_write_fails env" "\<not> queue_write_fails env"
    and "new_task_id env \<notin> q_task_id ` set (sync_queue db)"
  shows "\<exists>entry. filter (\<lambda>q. q_task_id q = new_task_id env)
             (sync_queue (snd (createTask env db taskData))) = [entry] \<and>
           sync_queue (snd (createTask env db taskData)) = sync_queue db @ [entry] \<and>
           q_operation entry = Create \<and> q_task_id entry = new_task_id env"
  unfolding createTask_done(1) [OF assms(1-4)]
  using assms(5) by (simp add: filter_fresh)


lemma createTask_store_fails:
  assumes "in_title taskData = Some title" "title \<noteq> []" "store_write_fails env"
  shows "createTask env db taskData = (Inl WriteFailed, db)"
  using assms by (simp add: createTask_def Let_def)

lemma createTask_queue_fails:
  assumes "in_title taskData = Some title" "title \<noteq> []"
    and "\<not> store_write_fails env" "queue_write_fails env"
  shows "fst (createTask env db taskData) = Inl WriteFailed"
    and "sync_queue (snd (createTask env db taskData)) = sync_queue db"
    and "\<exists>row. tasks (snd (createTask env db taskData)) = tasks db @ [row] \<and>
           row_id row = new_task_id env \<and> row_title row = title \<and>
           row_sync_status row = Pending \<and> row_updated_at row = clock env"
  using assms by (simp_all add: createTask_def Let_def)

lemma updateTask_store_fails:
  assumes "selectTask db i = Some existing" "store_write_fails env"
  shows "updateTask env db i updates = (Inl WriteFailed, db)"
  using assms by (simp add: updateTask_def Let_def)

lemma updateTask_queue_fails:
  assumes "selectTask db i = Some existing" "\<not> store_write_fails env" "queue_write_fails env"
  shows "fst (updateTask env db i updates) = Inl WriteFailed"
    and "sync_queue (snd (updateTask env db i updates)) = sync_queue db"
    and "tasks (snd (updateTask env db i updates)) =
           tasks (snd (updateTask (env\<lparr> queue_write_fails := False \<rparr>) db i updates))"
  using assms by (simp_all add: updateTask_def Let_def insertQueue_def)

lemma deleteTask_store_fails:
  assumes "selectTask db i = Some existing" "store_write_fails env"
  shows "deleteTask env db i = (Inl WriteFailed, db)"
  using assms by (simp add: deleteTask_def Let_def)

lemma deleteTask_queue_fails:
  assumes "selectTask db i = Some existing" "\<not> store_write_fails env" "queue_write_fails env"
  shows "fst (deleteTask env db i) = Inl WriteFailed"
    and "sync_queue (snd (deleteTask env db i)) = sync_queue db"
    and "tasks (snd (deleteTask env db i)) =
           tasks (snd (deleteTask (env\<lparr> queue_write_fails := False \<rparr>) db i))"
  using assms by (simp_all add: deleteTask_def Let_def insertQueue_def)

lemma absent_task_not_found:
  assumes "selectTask db i = None"
  shows "getTask db i = None"
    and "updateTask env db i updates = (Inr None, db)"
    and "deleteTask env db i = (Inr False, db)"
  using assms by (simp_all add: getTask_def updateTask_def deleteTask_def)

lemma updateTask_rows_queue_fails:
  assumes "selectTask db i = Some existing" "\<not> store_write_fails env" "queue_write_fails env"
    and "r \<in> set (tasks (snd (updateTask env db i updates)))" "row_id r = i"
  shows "row_sync_status r = Pending \<and> row_updated_at r = clock env"
  using updateTask_rows [of db i existing "env\<lparr> queue_write_fails := False \<rparr>" r updates]
    assms updateTask_queue_fails(3) [OF assms(1-3), of updates]
  by simp

lemma deleteTask_rows_queue_fails:
  assumes "selectTask db i = Some existing" "\<not> store_write_fails env" "queue_write_fails env"
    and "r \<in> set (tasks (snd (deleteTask env db i)))" "row_id r = i"
  shows "row_sync_status r = Pending \<and> row_updated_at r = clock env"
  using deleteTask_rows [of db i existing "env\<lparr> queue_write_fails := False \<rparr>" r]
    assms deleteTask_queue_fails(3) [OF assms(1-3)]
  by simp

lemma createTask_writes:
  assumes "in_title taskData = Some title" "title \<noteq> []"
  shows "store_write_fails env \<longrightarrow> createTask env db taskData = (Inl WriteFailed, db)"
    and "\<not> store_write_fails env \<and> queue_write_fails env \<longrightarrow>
           fst (createTask env db taskData) = Inl WriteFailed \<and>
           sync_queue (snd (createTask env db taskData)) = sync_queue db \<and>
           (\<exists>row. tasks (snd (createTask env db taskData)) = tasks db @ [row] \<and>
              row_id row = new_task_id env \<and> row_sync_status row = Pending \<and>
              row_updated_at row = clock env)"
    and "\<not> store_write_fails env \<and> \<not> queue_write_fails env \<longrightarrow>
           (\<exists>row entry.
              snd (createTask env db taskData) =
                \<lparr> tasks = tasks db @ [row], sync_queue = sync_queue db @ [entry] \<rparr> \<and>
              row_id row = new_task_id env \<and> row_sync_status row = Pending \<and>
              row_updated_at row = clock env \<and>
              q_task_id entry = new_task_id env \<and> q_operation entry = Create)"
proof -
  show "store_write_fails env \<longrightarrow> createTask env db taskData = (Inl WriteFailed, db)"
    using createTask_store_fails [OF assms] by blast
  show "\<not> store_write_fails env \<and> queue_write_fails env \<longrightarrow>
           fst (createTask env db taskData) = Inl WriteFailed \<and>
           sync_queue (snd (createTask env db taskData)) = sync_queue db \<and>
           (\<exists>row. tasks (snd (createTask env db taskData)) = tasks db @ [row] \<and>
              row_id row = new_task_id env \<and> row_sync_status row = Pending \<and>
              row_updated_at row = clock env)"
    using createTask_queue_fails [OF assms, of env db] by blast
  show "\<not> store_write_fails env \<and> \<not> queue_write_fails env \<longrightarrow>
           (\<exists>row entry.
              snd (createTask env db taskData) =
                \<lparr> tasks = tasks db @ [row], sync_queue = sync_queue db @ [entry] \<rparr> \<and>
              row_id row = new_task_id env \<and> row_sync_status row = Pending \<and>
              row_updated_at row = clock env \<and>
              q_task_id entry = new_task_id env \<and> q_operation entry = Create)"
  proof
    assume "\<not> store_write_fails env \<and> \<not> queue_write_fails env"
    then have ok: "\<not> store_write_fails env" "\<not> queue_write_fails env"
      by simp_all
    show "\<exists>row entry.
              snd (createTask env db taskData) =
                \<lparr> tasks = tasks db @ [row], sync_queue = sync_queue db @ [entry] \<rparr> \<and>
              row_id row = new_task_id env \<and> row_sync_status row = Pending \<and>
              row_updated_at row = clock env \<and>
              q_task_id entry = new_task_id env \<and> q_operation entry = Create"
      unfolding createTask_done(1) [OF assms ok] by simp
  qed
qed

lemma updateTask_writes:
  assumes "selectTask db i = Some existing"
  shows "store_write_fails env \<longrightarrow> updateTask env db i updates = (Inl WriteFailed, db)"
    and "\<not> store_write_fails env \<and> queue_write_fails env \<longrightarrow>
           fst (updateTask env db i updates) = Inl WriteFailed \<and>
           sync_queue (snd (updateTask env db i updates)) = sync_queue db \<and>
           (\<forall>r \<in> set (tasks (snd (updateTask env db i updates))).
              row_id r = i \<longrightarrow> row_sync_status r = Pending \<and> row_updated_at r = clock env)"
    and "\<not> store_write_fails env \<and> \<not> queue_write_fails env \<longrightarrow>
           (\<exists>entry. sync_queue (snd (updateTask env db i updates)) = sync_queue db @ [entry] \<and>
              q_task_id entry = i \<and> q_operation entry = Update) \<and>
           (\<forall>r \<in> set (tasks (snd (updateTask env db i updates))).
              row_id r = i \<longrightarrow> row_sync_status r = Pending \<and> row_updated_at r = clock env)"
proof -
  show "store_write_fails env \<longrightarrow> updateTask env db i updates = (Inl WriteFailed, db)"
    using updateTask_store_fails [OF assms] by blast
  show "\<not> store_write_fails env \<and> queue_write_fails env \<longrightarrow>
           fst (updateTask env db i updates) = Inl WriteFailed \<and>
           sync_queue (snd (updateTask env db i updates)) = sync_queue db \<and>
           (\<forall>r \<in> set (tasks (snd (updateTask env db i updates))).
              row_id r = i \<longrightarrow> row_sync_status r = Pending \<and> row_updated_at r = clock env)"
    using updateTask_queue_fails(1,2) [OF assms, of env updates]
      updateTask_rows_queue_fails [OF assms, of env _ updates]
    by blast
  show "\<not> store_write_fails env \<and> \<not> queue_write_fails env \<longrightarrow>
           (\<exists>entry. sync_queue (snd (updateTask env db i updates)) = sync_queue db @ [entry] \<and>
              q_task_id entry = i \<and> q_operation entry = Update) \<and>
           (\<forall>r \<in> set (tasks (snd (updateTask env db i updates))).
              row_id r = i \<longrightarrow> row_sync_status r = Pending \<and> row_updated_at r = clock env)"
  proof
    assume "\<not> store_write_fails env \<and> \<not> queue_write_fails env"
    then have ok: "\<not> store_write_fails env" "\<not> queue_write_fails env"
      by simp_all
    obtain dat where queue: "sync_queue (snd (updateTask env db i updates)) = sync_queue db @
           [\<lparr> q_id = new_queue_id env, q_task_id = i, q_operation = Update, q_data = dat,
              q_created_at = clock env, q_retry_count = 0, q_error_message = None \<rparr>]"
      using updateTask_done(2) [OF assms ok] by blast
    have rows: "\<forall>r \<in> set (tasks (snd (updateTask env db i updates))).
        row_id r = i \<longrightarrow> row_sync_status r = Pending \<and> row_updated_at r = clock env"
      using updateTask_rows [OF assms ok] by blast
    show "(\<exists>entry. sync_queue (snd (updateTask env db i updates)) = sync_queue db @ [entry] \<and>
              q_task_id entry = i \<and> q_operation entry = Update) \<and>
           (\<forall>r \<in> set (tasks (snd (updateTask env db i updates))).
              row_id r = i \<longrightarrow> row_sync_status r = Pending \<and> row_updated_at r = clock env)"
      using rows by (simp add: queue)
  qed
qed

lemma deleteTask_writes:
  assumes "selectTask db i = Some existing"
  shows "store_write_fails env \<longrightarrow> deleteTask env db i = (Inl WriteFailed, db)"
    and "\<not> store_write_fails env \<and> queue_write_fails env \<longrightarrow>
           fst (deleteTask env db i) = Inl WriteFailed \<and>
           sync_queue (snd (deleteTask env db i)) = sync_queue db \<and>
           (\<forall>r \<in> set (tasks (snd (deleteTask env db i))).
              row_id r = i \<longrightarrow> row_sync_status r = Pending \<and> row_updated_at r = clock env)"
    and "\<not> store_write_fails env \<and> \<not> queue_write_fails env \<longrightarrow>
           (\<exists>entry. sync_queue (snd (deleteTask env db i)) = sync_queue db @ [entry] \<and>
              q_task_id entry = i \<and> q_operation entry = Delete) \<and>
           (\<forall>r \<in> set (tasks (snd (deleteTask env db i))).
              row_id r = i \<longrightarrow> row_sync_status r = Pending \<and> row_updated_at r = clock env)"
proof -
  show "store_write_fails env \<longrightarrow> deleteTask env db i = (Inl WriteFailed, db)"
    using deleteTask_store_fails [OF assms] by blast
  show "\<not> store_write_fails env \<and> queue_write_fails env \<longrightarrow>
           fst (deleteTask env db i) = Inl WriteFailed \<and>
           sync_queue (snd (deleteTask env db i)) = sync_queue db \<and>
           (\<forall>r \<in> set (tasks (snd (deleteTask env db i))).
              row_id r = i \<longrightarrow> row_sync_status r = Pending \<and> row_updated_at r = clock env)"
    using deleteTask_queue_fails(1,2) [OF assms, of env]
      deleteTask_rows_queue_fails [OF assms, of env]
    by blast
  show "\<not> store_write_fails env \<and> \<not> queue_write_fails env \<longrightarrow>
           (\<exists>entry. sync_queue (snd (deleteTask env db i)) = sync_queue db @ [entry] \<and>
              q_task_id entry = i \<and> q_operation entry = Delete) \<and>
           (\<forall>r \<in> set (tasks (snd (deleteTask env db i))).
              row_id r = i \<longrightarrow> row_sync_status r = Pending \<and> row_updated_at r = clock env)"
  proof
    assume "\<not> store_write_fails env \<and> \<not> queue_write_fails env"
    then have ok: "\<not> store_write_fails env" "\<not> queue_write_fails env"
      by simp_all
    obtain dat where queue: "sync_queue (snd (deleteTask env db i)) = sync_queue db @
           [\<lparr> q_id = new_queue_id env, q_task_id = i, q_operation = Delete, q_data = dat,
              q_created_at = clock env, q_retry_count = 0, q_error_message = None \<rparr>]"
      using deleteTask_done(2) [OF assms ok] by blast
    have rows: "\<forall>r \<in> set (tasks (snd (deleteTask env db i))).
        row_id r = i \<longrightarrow> row_sync_status r = Pending \<and> row_updated_at r = clock env"
      using deleteTask_rows [OF assms ok] by blast
    show "(\<exists>entry. sync_queue (snd (deleteTask env db i)) = sync_queue db @ [entry] \<and>
              q_task_id entry = i \<and> q_operation entry = Delete) \<and>
           (\<forall>r \<in> set (tasks (snd (deleteTask env db i))).
              row_id r = i \<longrightarrow> row_sync_status r = Pending \<and> row_updated_at r = clock env)"
      using rows by (simp add: queue)
  qed
qed


section \<open>Facts about the sync loop\<close>

lemma js_slice_window:
  "0 < b \<Longrightarrow> js_slice xs (Num (int i)) (js_add (Num (int i)) (Num b)) = take (nat b) (drop i xs)"
  by (auto simp: js_slice_def relativeIndex_def Let_def min_def nat_add_distrib)

lemma chunks_step:
  "0 < n \<Longrightarrow> xs \<noteq> [] \<Longrightarrow> chunks n xs = take n xs # chunks n (drop n xs)"
  by (subst chunks.simps) simp

lemma chunks_Nil [simp]: "chunks n [] = []"
  by (subst chunks.simps) simp

lemma syncBatches_Nil [simp]: "syncBatches env st [] = st"
  by (simp add: syncBatches_def)

lemma syncBatches_Cons [simp]:
  "syncBatches env st (batch # batches) = syncBatches env (batchStep env batch st) batches"
  by (simp add: syncBatches_def)

lemma syncLoop_positive:
  "0 < b \<Longrightarrow>
   syncLoop env (Num b) items (Num (int i)) st =
     Some (syncBatches env st (chunks (nat b) (drop i items)))"
proof (induction "length items - i" arbitrary: i st rule: less_induct)
  case less
  show ?case
  proof (cases "i < length items")
    case True
    have next_i: "js_add (Num (int i)) (Num b) = Num (int (i + nat b))"
      using less.prems by simp
    have smaller: "length items - (i + nat b) < length items - i"
      using True less.prems by simp
    have window: "js_slice items (Num (int i)) (Num (int (i + nat b)))
        = take (nat b) (drop i items)"
      using js_slice_window [OF less.prems, of items i] by (simp only: next_i)
    have unfold: "chunks (nat b) (drop i items)
        = take (nat b) (drop i items) # chunks (nat b) (drop (i + nat b) items)"
      using True less.prems by (simp add: chunks_step add.commute)
    have "syncLoop env (Num b) items (Num (int i)) st
        = syncLoop env (Num b) items (Num (int (i + nat b)))
            (batchStep env (take (nat b) (drop i items)) st)"
      using True
      by (subst syncLoop.simps)
         (simp only: next_i window js_less_length.simps of_nat_less_iff if_True)
    also have "\<dots> = Some (syncBatches env
        (batchStep env (take (nat b) (drop i items)) st)
        (chunks (nat b) (drop (i + nat b) items)))"
      using less.hyps [OF smaller less.prems] .
    finally show ?thesis by (simp add: unfold)
  next
    case False
    then show ?thesis by (subst syncLoop.simps) simp
  qed
qed

lemma sync_positive:
  assumes "configuredBatchSize env = Num b" "0 < b"
  shows "sync env db =
           Some (summary (syncBatches env (initialState db) (chunks (nat b) (readQueue db))))"
  using syncLoop_positive [OF assms(2), of env "readQueue db" 0 "initialState db"]
  by (simp add: sync_def assms(1))

lemma concat_chunks: "0 < n \<Longrightarrow> concat (chunks n xs) = xs"
proof (induction n xs rule: chunks.induct)
  case (1 n xs)
  show ?case
  proof (cases "xs = []")
    case True then show ?thesis by simp
  next
    case False
    with 1 show ?thesis by (simp add: chunks_step)
  qed
qed

lemma chunks_bounded: "c \<in> set (chunks n xs) \<Longrightarrow> c \<noteq> [] \<and> length c \<le> n"
proof (induction n xs rule: chunks.induct)
  case (1 n xs)
  show ?case
  proof (cases "n = 0 \<or> xs = []")
    case True
    with 1(2) show ?thesis by (subst (asm) chunks.simps) simp
  next
    case False
    with 1 show ?thesis by (subst (asm) (2) chunks.simps) auto
  qed
qed

lemma recordFailure_fields [simp]:
  "rs_db (recordFailure now item m r st) = handleSyncError now (rs_db st) item m"
  "rs_synced (recordFailure now item m r st) = rs_synced st"
  "rs_failed (recordFailure now item m r st) = rs_failed st + 1"
  "rs_errors (recordFailure now item m r st) = rs_errors st @
     [\<lparr> e_task_id = q_task_id item, e_operation = q_operation item, e_error = r,
        e_timestamp = now \<rparr>]"
  "rs_sent (recordFailure now item m r st) = rs_sent st"
  by (simp_all add: recordFailure_def)

lemma batchFailed_Nil [simp]: "batchFailed now [] m st = st"
  by (simp add: batchFailed_def)

lemma batchFailed_Cons [simp]:
  "batchFailed now (item # batch) m st =
     batchFailed now batch m (recordFailure now item m (orDefault (Some m) ''Batch failed'') st)"
  by (simp add: batchFailed_def)

lemma batchFailed_fields:
  "rs_db (batchFailed now batch m st) =
     foldl (\<lambda>db item. handleSyncError now db item m) (rs_db st) batch"
  "rs_synced (batchFailed now batch m st) = rs_synced st"
  "rs_failed (batchFailed now batch m st) = rs_failed st + length batch"
  "rs_errors (batchFailed now batch m st) = rs_errors st @
     map (\<lambda>item. \<lparr> e_task_id = q_task_id item, e_operation = q_operation item,
                    e_error = orDefault (Some m) ''Batch failed'', e_timestamp = now \<rparr>) batch"
  "rs_sent (batchFailed now batch m st) = rs_sent st"
  by (induction batch arbitrary: st; simp)+

lemma applyProcessed_frame:
  assumes "applyProcessed now batch p st = Inr st'"
  shows "rs_sent st' = rs_sent st"
    and "\<exists>new. rs_errors st' = rs_errors st @ new \<and>
           rs_failed st' = rs_failed st + length new \<and>
           rs_synced st' + rs_failed st' =
             rs_synced st + rs_failed st +
               (if find (\<lambda>b. q_task_id b = p_client_id p) batch = None then 0 else 1)"
  using assms
  by (auto simp: applyProcessed_def Let_def
           split: option.splits item_status.splits if_splits)

lemma applyResults_frame:
  assumes "applyResults now batch ps st = (thrown, st')"
  shows "rs_sent st' = rs_sent st"
    and "\<exists>new. rs_errors st' = rs_errors st @ new \<and>
           rs_failed st' = rs_failed st + length new"
  using assms
proof (induction ps arbitrary: st)
  case Nil
  { case 1 then show ?case by simp }
  { case 2 then show ?case by simp }
next
  case (Cons p ps)
  { case 1
    then show ?case
      using Cons.IH(1) applyProcessed_frame(1) [of now batch p st]
      by (auto split: sum.splits) }
  { case 2
    then show ?case
      using Cons.IH(2) applyProcessed_frame(2) [of now batch p st]
      by (fastforce split: sum.splits) }
qed


lemma batchStep_rejected:
  assumes "remote env (length (rs_sent st)) batch = Rejected m"
  shows "batchStep env batch st =
           batchFailed (sync_clock env) batch m (st\<lparr> rs_sent := rs_sent st @ [batch] \<rparr>)"
  using assms by (simp add: batchStep_def)


lemma batchStep_frame:
  shows "rs_sent (batchStep env batch st) = rs_sent st @ [batch]"
    and "\<exists>new. rs_errors (batchStep env batch st) = rs_errors st @ new \<and>
           rs_failed (batchStep env batch st) = rs_failed st + length new"
proof -
  let ?st0 = "st\<lparr> rs_sent := rs_sent st @ [batch] \<rparr>"
  show "rs_sent (batchStep env batch st) = rs_sent st @ [batch]"
  proof (cases "remote env (length (rs_sent st)) batch")
    case (Rejected m)
    then show ?thesis by (simp add: batchStep_rejected batchFailed_fields)
  next
    case (Accepted ps)
    obtain thrown st1 where run: "applyResults (sync_clock env) batch ps ?st0 = (thrown, st1)"
      by (cases "applyResults (sync_clock env) batch ps ?st0")
    from applyResults_frame(1) [OF run] have "rs_sent st1 = rs_sent st @ [batch]"
      by simp
    with Accepted run show ?thesis
      by (cases thrown) (simp_all add: batchStep_def batchFailed_fields)
  qed
  show "\<exists>new. rs_errors (batchStep env batch st) = rs_errors st @ new \<and>
           rs_failed (batchStep env batch st) = rs_failed st + length new"
  proof (cases "remote env (length (rs_sent st)) batch")
    case (Rejected m)
    then show ?thesis by (simp add: batchStep_rejected batchFailed_fields)
  next
    case (Accepted ps)
    obtain thrown st1 where run: "applyResults (sync_clock env) batch ps ?st0 = (thrown, st1)"
      by (cases "applyResults (sync_clock env) batch ps ?st0")
    from applyResults_frame(2) [OF run] obtain new where
      new: "rs_errors st1 = rs_errors st @ new" "rs_failed st1 = rs_failed st + length new"
      by auto
    show ?thesis
    proof (cases thrown)
      case None
      with Accepted run new show ?thesis by (simp add: batchStep_def)
    next
      case (Some m)
      with Accepted run have "batchStep env batch st = batchFailed (sync_clock env) batch m st1"
        by (simp add: batchStep_def)
      with new show ?thesis by (simp add: batchFailed_fields)
    qed
  qed
qed

lemma syncBatches_frame:
  shows "rs_sent (syncBatches env st batches) = rs_sent st @ batches"
    and "\<exists>new. rs_errors (syncBatches env st batches) = rs_errors st @ new \<and>
           rs_failed (syncBatches env st batches) = rs_failed st + length new"
proof (induction batches arbitrary: st)
  case Nil
  { case 1 show ?case by simp }
  { case 2 show ?case by simp }
next
  case (Cons batch batches)
  { case 1 show ?case by (simp add: Cons.IH(1) batchStep_frame(1)) }
  { case 2
    obtain new1 where new1:
      "rs_errors (batchStep env batch st) = rs_errors st @ new1"
      "rs_failed (batchStep env batch st) = rs_failed st + length new1"
      using batchStep_frame(2) [of env batch st] by auto
    obtain new2 where new2:
      "rs_errors (syncBatches env (batchStep env batch st) batches)
         = rs_errors (batchStep env batch st) @ new2"
      "rs_failed (syncBatches env (batchStep env batch st) batches)
         = rs_failed (batchStep env batch st) + length new2"
      using Cons.IH(2) [of "batchStep env batch st"] by auto
    show ?case
      by (rule exI [of _ "new1 @ new2"]) (simp add: new1 new2) }
qed


lemma summary_fields:
  "success (fst (summary st)) = (rs_failed st = 0)"
  "synced_items (fst (summary st)) = rs_synced st"
  "failed_items (fst (summary st)) = rs_failed st"
  "errors (fst (summary st)) = rs_errors st"
  "fst (snd (summary st)) = rs_db st"
  "snd (snd (summary st)) = rs_sent st"
  by (simp_all add: summary_def)

lemma initialState_fields [simp]:
  "rs_db (initialState db) = db"
  "rs_synced (initialState db) = 0"
  "rs_failed (initialState db) = 0"
  "rs_errors (initialState db) = []"
  "rs_sent (initialState db) = []"
  by (simp_all add: initialState_def)

lemma default_batch_size: "batch_size_var env = None \<Longrightarrow> configuredBatchSize env = Num 50"
  by (simp add: configuredBatchSize_def parseInt10_def isWhiteSpace_def isDigit_def)

lemma chunks_120_by_50:
  assumes "length xs = 120"
  shows "map length (chunks 50 xs) = [50, 50, 20]"
proof -
  have one: "chunks 50 xs = take 50 xs # chunks 50 (drop 50 xs)"
    using assms by (intro chunks_step) auto
  have two: "chunks 50 (drop 50 xs) = take 50 (drop 50 xs) # chunks 50 (drop 50 (drop 50 xs))"
    using assms by (intro chunks_step) auto
  have three: "chunks 50 (drop 50 (drop 50 xs))
      = take 50 (drop 50 (drop 50 xs)) # chunks 50 (drop 50 (drop 50 (drop 50 xs)))"
    using assms by (intro chunks_step) auto
  have rest: "drop 50 (drop 50 (drop 50 xs)) = []"
    using assms by simp
  show ?thesis
    unfolding one two three rest using assms by simp
qed

lemma length_readQueue: "length (readQueue db) = length (sync_queue db)"
  by (simp add: readQueue_def)

lemma orDefault_message: "orDefault (Some m) d = (if m = [] then d else m)"
  by (simp add: orDefault_def)

lemma batchStep_rejected_fields:
  assumes "remote env (length (rs_sent st)) batch = Rejected m"
  shows "rs_failed (batchStep env batch st) = rs_failed st + length batch"
    and "rs_errors (batchStep env batch st) = rs_errors st @
           map (\<lambda>item. \<lparr> e_task_id = q_task_id item, e_operation = q_operation item,
                          e_error = (if m = [] then ''Batch failed'' else m),
                          e_timestamp = sync_clock env \<rparr>) batch"
    and "rs_synced (batchStep env batch st) = rs_synced st"
    and "rs_db (batchStep env batch st) =
           foldl (\<lambda>db item. handleSyncError (sync_clock env) db item m) (rs_db st) batch"
  unfolding batchStep_rejected [OF assms]
  by (simp_all add: batchFailed_fields orDefault_message)

lemma syncBatches_keeps_errors:
  "set (rs_errors st) \<subseteq> set (rs_errors (syncBatches env st batches))"
proof -
  obtain new where "rs_errors (syncBatches env st batches) = rs_errors st @ new"
    using syncBatches_frame(2) [of env st batches] by auto
  then show ?thesis by simp
qed

lemma syncBatches_rejected_errors:
  assumes "k < length batches"
    and "remote env (length (rs_sent st) + k) (batches ! k) = Rejected m"
    and "item \<in> set (batches ! k)"
  shows "\<lparr> e_task_id = q_task_id item, e_operation = q_operation item,
           e_error = (if m = [] then ''Batch failed'' else m),
           e_timestamp = sync_clock env \<rparr> \<in> set (rs_errors (syncBatches env st batches))"
  using assms
proof (induction batches arbitrary: st k)
  case Nil
  then show ?case by simp
next
  case (Cons batch batches)
  show ?case
  proof (cases k)
    case 0
    with Cons.prems have rejected: "remote env (length (rs_sent st)) batch = Rejected m"
      and member: "item \<in> set batch"
      by simp_all
    have "\<lparr> e_task_id = q_task_id item, e_operation = q_operation item,
           e_error = (if m = [] then ''Batch failed'' else m),
           e_timestamp = sync_clock env \<rparr> \<in> set (rs_errors (batchStep env batch st))"
      unfolding batchStep_rejected_fields(2) [OF rejected] using member by auto
    then show ?thesis
      using syncBatches_keeps_errors [of "batchStep env batch st" env batches] by auto
  next
    case (Suc j)
    with Cons.prems have "j < length batches"
      and "remote env (length (rs_sent (batchStep env batch st)) + j) (batches ! j) = Rejected m"
      and "item \<in> set (batches ! j)"
      by (simp_all add: batchStep_frame(1))
    from Cons.IH [OF this] show ?thesis by simp
  qed
qed

lemma handleSyncError_queue:
  "sync_queue (handleSyncError now db item m) =
     map (\<lambda>q. if q_id q = q_id item
           then q\<lparr> q_retry_count := q_retry_count item + 1, q_error_message := Some m \<rparr>
           else q) (sync_queue db)"
  by (simp add: handleSyncError_def updateSyncStatus_def Let_def)

lemma handleSyncError_tasks:
  "tasks (handleSyncError now db item m) =
     (if 3 \<le> q_retry_count item + 1
      then map (\<lambda>r. if row_id r = q_task_id item then r\<lparr> row_sync_status := Error \<rparr> else r)
             (tasks db)
      else tasks db)"
  by (simp add: handleSyncError_def updateSyncStatus_def Let_def)

lemma handleSyncError_ids:
  "map q_id (sync_queue (handleSyncError now db item m)) = map q_id (sync_queue db)"
  "map q_task_id (sync_queue (handleSyncError now db item m)) = map q_task_id (sync_queue db)"
  "map row_id (tasks (handleSyncError now db item m)) = map row_id (tasks db)"
  by (simp_all add: handleSyncError_queue handleSyncError_tasks o_def cong: map_cong)

lemma handleSyncError_entry:
  assumes "q \<in> set (sync_queue (handleSyncError now db item m))" "q_id q = q_id item"
  shows "q_retry_count q = q_retry_count item + 1 \<and> q_error_message q = Some m"
proof -
  from assms(1) obtain q0 where "q0 \<in> set (sync_queue db)"
    and q: "q = (if q_id q0 = q_id item
          then q0\<lparr> q_retry_count := q_retry_count item + 1, q_error_message := Some m \<rparr>
          else q0)"
    unfolding handleSyncError_queue by auto
  show ?thesis
  proof (cases "q_id q0 = q_id item")
    case True
    with q show ?thesis by simp
  next
    case False
    with q assms(2) show ?thesis by simp
  qed
qed

lemma handleSyncError_stored_entry:
  assumes "item \<in> set (sync_queue db)"
  shows "item\<lparr> q_retry_count := q_retry_count item + 1, q_error_message := Some m \<rparr>
           \<in> set (sync_queue (handleSyncError now db item m))"
proof -
  have "(\<lambda>q. if q_id q = q_id item
           then q\<lparr> q_retry_count := q_retry_count item + 1, q_error_message := Some m \<rparr>
           else q) item \<in> set (sync_queue (handleSyncError now db item m))"
    unfolding handleSyncError_queue using assms by (simp only: set_map) (rule imageI)
  then show ?thesis by simp
qed

lemma handleSyncError_other_entry:
  assumes "q \<in> set (sync_queue db)" "q_id q \<noteq> q_id item"
  shows "q \<in> set (sync_queue (handleSyncError now db item m))"
proof -
  have "(\<lambda>q. if q_id q = q_id item
           then q\<lparr> q_retry_count := q_retry_count item + 1, q_error_message := Some m \<rparr>
           else q) q \<in> set (sync_queue (handleSyncError now db item m))"
    unfolding handleSyncError_queue using assms(1) by (simp only: set_map) (rule imageI)
  with assms(2) show ?thesis by simp
qed

lemma handleSyncError_marks_error:
  assumes "3 \<le> q_retry_count item + 1"
    and "r \<in> set (tasks (handleSyncError now db item m))" "row_id r = q_task_id item"
  shows "row_sync_status r = Error"
proof -
  from assms(1,2) obtain r0 where "r0 \<in> set (tasks db)"
    and r: "r = (if row_id r0 = q_task_id item then r0\<lparr> row_sync_status := Error \<rparr> else r0)"
    unfolding handleSyncError_tasks by auto
  show ?thesis
  proof (cases "row_id r0 = q_task_id item")
    case True
    with r show ?thesis by simp
  next
    case False
    with r assms(3) show ?thesis by simp
  qed
qed

lemma handleSyncError_below_limit:
  assumes "q_retry_count item + 1 < 3"
  shows "tasks (handleSyncError now db item m) = tasks db"
  using assms by (simp add: handleSyncError_tasks)

lemma handleSyncError_keeps_error:
  assumes "r \<in> set (tasks (handleSyncError now db item m))" "row_id r = i"
    and "\<forall>r \<in> set (tasks db). row_id r = i \<longrightarrow> row_sync_status r = Error"
  shows "row_sync_status r = Error"
proof (cases "3 \<le> q_retry_count item + 1")
  case True
  with assms(1) obtain r0 where r0: "r0 \<in> set (tasks db)"
    and r: "r = (if row_id r0 = q_task_id item then r0\<lparr> row_sync_status := Error \<rparr> else r0)"
    unfolding handleSyncError_tasks by auto
  show ?thesis
  proof (cases "row_id r0 = q_task_id item")
    case True
    with r show ?thesis by simp
  next
    case False
    with r r0 assms(2,3) show ?thesis by simp
  qed
next
  case False
  with assms show ?thesis by (simp add: handleSyncError_tasks)
qed


lemma handleSyncError_entry_back:
  assumes "q \<in> set (sync_queue (handleSyncError now db item m))" "q_id q \<noteq> q_id item"
  shows "q \<in> set (sync_queue db)"
proof -
  from assms(1) obtain q0 where q0: "q0 \<in> set (sync_queue db)"
    and q: "q = (if q_id q0 = q_id item
          then q0\<lparr> q_retry_count := q_retry_count item + 1, q_error_message := Some m \<rparr>
          else q0)"
    unfolding handleSyncError_queue by auto
  show ?thesis
  proof (cases "q_id q0 = q_id item")
    case True
    with q assms(2) show ?thesis by simp
  next
    case False
    with q q0 show ?thesis by simp
  qed
qed

lemma failed_batch_ids:
  "map q_id (sync_queue (foldl (\<lambda>db item. handleSyncError now db item m) db batch))
     = map q_id (sync_queue db)"
  by (induction batch arbitrary: db) (simp_all add: handleSyncError_ids)

lemma failed_batch_entry:
  assumes "distinct (map q_id batch)" "item \<in> set batch"
    and "q \<in> set (sync_queue (foldl (\<lambda>db item. handleSyncError now db item m) db batch))"
    and "q_id q = q_id item"
  shows "q_retry_count q = q_retry_count item + 1 \<and> q_error_message q = Some m"
  using assms
proof (induction batch rule: rev_induct)
  case Nil
  then show ?case by simp
next
  case (snoc x xs)
  let ?before = "foldl (\<lambda>db item. handleSyncError now db item m) db xs"
  from snoc.prems(3) have q: "q \<in> set (sync_queue (handleSyncError now ?before x m))"
    by simp
  show ?case
  proof (cases "item = x")
    case True
    with q snoc.prems(4) show ?thesis
      using handleSyncError_entry [of q now ?before x m] by simp
  next
    case False
    with snoc.prems(2) have member: "item \<in> set xs"
      by simp
    then have "q_id item \<in> q_id ` set xs"
      by (rule imageI)
    moreover from snoc.prems(1) have "q_id x \<notin> q_id ` set xs"
      by simp
    ultimately have "q_id item \<noteq> q_id x"
      by metis
    with snoc.prems(4) have "q_id q \<noteq> q_id x"
      by simp
    with q have "q \<in> set (sync_queue ?before)"
      by (rule handleSyncError_entry_back)
    moreover from snoc.prems(1) have "distinct (map q_id xs)"
      by simp
    ultimately show ?thesis
      using snoc.IH member snoc.prems(4) by blast
  qed
qed

lemma failed_batch_marks_error:
  assumes "3 \<le> q_retry_count item + 1"
  shows "item \<in> set batch \<Longrightarrow>
         r \<in> set (tasks (foldl (\<lambda>db item. handleSyncError now db item m) db batch)) \<Longrightarrow>
         row_id r = q_task_id item \<Longrightarrow> row_sync_status r = Error"
proof (induction batch arbitrary: r rule: rev_induct)
  case Nil
  then show ?case by simp
next
  case (snoc x xs)
  let ?before = "foldl (\<lambda>db item. handleSyncError now db item m) db xs"
  from snoc.prems(2) have r: "r \<in> set (tasks (handleSyncError now ?before x m))"
    by simp
  show ?case
  proof (cases "item = x")
    case True
    with assms have limit: "3 \<le> q_retry_count x + 1"
      by simp
    from True snoc.prems(3) have "row_id r = q_task_id x"
      by simp
    with limit r show ?thesis
      by (rule handleSyncError_marks_error)
  next
    case False
    with snoc.prems(1) have "item \<in> set xs"
      by simp
    with snoc.IH have "\<forall>r \<in> set (tasks ?before).
        row_id r = q_task_id item \<longrightarrow> row_sync_status r = Error"
      by blast
    with r snoc.prems(3) show ?thesis
      by (rule handleSyncError_keeps_error)
  qed
qed

lemma applyProcessed_failure:
  assumes "find (\<lambda>b. q_task_id b = p_client_id processed) batch = Some original"
    and "p_status processed = Failure \<or>
         (p_status processed = Conflict \<and> p_resolved_data processed = None)"
  shows "applyProcessed now batch processed st =
           Inr (recordFailure now original
                  (if p_status processed = Conflict then ''Conflict without resolution data''
                   else orDefault (p_error processed) ''Unknown error'')
                  (if p_status processed = Conflict then ''Conflict without resolution data''
                   else orDefault (p_error processed) ''Unknown error'') st)"
  using assms by (auto simp: applyProcessed_def)

lemma updateSyncStatus_synced:
  "sync_queue (updateSyncStatus now db taskId Synced sid) =
     filter (\<lambda>q. q_task_id q \<noteq> taskId) (sync_queue db)"
  "tasks (updateSyncStatus now db taskId Synced sid) =
     map (\<lambda>r. if row_id r = taskId
           then r\<lparr> row_sync_status := Synced,
                   row_server_id := (case sid of None \<Rightarrow> row_server_id r | Some s \<Rightarrow> Some s),
                   row_last_synced_at := Some now \<rparr>
           else r) (tasks db)"
  by (simp_all add: updateSyncStatus_def)


lemma synced_rows:
  assumes "r \<in> set (tasks (updateSyncStatus now db taskId Synced sid))" "row_id r = taskId"
  shows "row_sync_status r = Synced \<and> row_last_synced_at r = Some now \<and>
         (\<forall>s. sid = Some s \<longrightarrow> row_server_id r = Some s)"
proof -
  from assms(1) have "r \<in> set (map (\<lambda>r. if row_id r = taskId
           then r\<lparr> row_sync_status := Synced,
                   row_server_id := (case sid of None \<Rightarrow> row_server_id r | Some s \<Rightarrow> Some s),
                   row_last_synced_at := Some now \<rparr>
           else r) (tasks db))"
    by (simp only: updateSyncStatus_synced)
  from rewritten_rows [OF this assms(2)] obtain x where
    "r = x\<lparr> row_sync_status := Synced,
            row_server_id := (case sid of None \<Rightarrow> row_server_id x | Some s \<Rightarrow> Some s),
            row_last_synced_at := Some now \<rparr>"
    by auto
  then show ?thesis by simp
qed












lemma default_env: "configuredBatchSize (exampleSyncEnv online None reply) = Num 50"
  by (simp add: default_batch_size exampleSyncEnv_def)


lemma applyProcessed_counts:
  assumes "applyProcessed now batch p st = Inr st'"
  shows "rs_synced st' = rs_synced st + (if countsSynced batch p then 1 else 0)"
    and "rs_failed st' = rs_failed st + (if countsFailed batch p then 1 else 0)"
  using assms
  by (auto simp: applyProcessed_def Let_def countsSynced_def countsFailed_def
           split: option.splits item_status.splits if_splits)

lemma applyResults_counts:
  "applyResults now batch ps st = (None, st') \<Longrightarrow>
     rs_synced st' = rs_synced st + length (filter (countsSynced batch) ps) \<and>
     rs_failed st' = rs_failed st + length (filter (countsFailed batch) ps)"
proof (induction ps arbitrary: st)
  case Nil
  then show ?case by simp
next
  case (Cons p ps)
  from Cons.prems obtain st1 where step: "applyProcessed now batch p st = Inr st1"
    and rest: "applyResults now batch ps st1 = (None, st')"
    by (auto split: sum.splits)
  from Cons.IH [OF rest] applyProcessed_counts [OF step] show ?case
    by simp
qed


lemma applyResults_synced_grows:
  "applyResults now batch ps st = (thrown, st') \<Longrightarrow> rs_synced st \<le> rs_synced st'"
proof (induction ps arbitrary: st)
  case Nil
  then show ?case by simp
next
  case (Cons p ps)
  show ?case
  proof (cases "applyProcessed now batch p st")
    case (Inl m)
    with Cons.prems show ?thesis by simp
  next
    case (Inr st1)
    with Cons.prems have "applyResults now batch ps st1 = (thrown, st')"
      by simp
    from Cons.IH [OF this] applyProcessed_counts(1) [OF Inr] show ?thesis
      by simp
  qed
qed

lemma batchStep_synced_grows: "rs_synced st \<le> rs_synced (batchStep env batch st)"
proof (cases "remote env (length (rs_sent st)) batch")
  case (Rejected m)
  then show ?thesis by (simp add: batchStep_rejected batchFailed_fields)
next
  case (Accepted ps)
  let ?st0 = "st\<lparr> rs_sent := rs_sent st @ [batch] \<rparr>"
  obtain thrown st1 where run: "applyResults (sync_clock env) batch ps ?st0 = (thrown, st1)"
    by (cases "applyResults (sync_clock env) batch ps ?st0")
  from applyResults_synced_grows [OF run] have "rs_synced st \<le> rs_synced st1"
    by simp
  with Accepted run show ?thesis
    by (cases thrown) (simp_all add: batchStep_def batchFailed_fields)
qed

lemma syncBatches_synced_grows: "rs_synced st \<le> rs_synced (syncBatches env st batches)"
proof (induction batches arbitrary: st)
  case Nil
  show ?case by simp
next
  case (Cons batch batches)
  from Cons.IH [of "batchStep env batch st"] batchStep_synced_grows [of st env batch]
  show ?case by simp
qed

lemma batchStep_accepted:
  assumes "remote env (length (rs_sent st)) batch = Accepted results"
    and "applyResults (sync_clock env) batch results (st\<lparr> rs_sent := rs_sent st @ [batch] \<rparr>)
           = (None, st')"
  shows "batchStep env batch st = st'"
  using assms by (simp add: batchStep_def)












lemma syncBatches_append:
  "syncBatches env st (xs @ ys) = syncBatches env (syncBatches env st xs) ys"
  by (simp add: syncBatches_def)

lemma runAfter_Suc:
  assumes "k < length batches"
  shows "runAfter env db batches (Suc k) = batchStep env (batches ! k) (runAfter env db batches k)"
  using assms by (simp add: runAfter_def take_Suc_conv_app_nth syncBatches_append)

lemma runAfter_sent:
  assumes "k \<le> length batches"
  shows "length (rs_sent (runAfter env db batches k)) = k"
  using assms by (simp add: runAfter_def syncBatches_frame(1))

lemma runAfter_rest:
  "syncBatches env (initialState db) batches =
     syncBatches env (runAfter env db batches k) (drop k batches)"
  using syncBatches_append [of env "initialState db" "take k batches" "drop k batches"]
  by (simp add: runAfter_def)







lemma failed_batch_other_entry:
  "q \<in> set (sync_queue db) \<Longrightarrow> \<forall>x \<in> set batch. q_id x \<noteq> q_id q \<Longrightarrow>
   q \<in> set (sync_queue (foldl (\<lambda>db item. handleSyncError now db item m) db batch))"
proof (induction batch arbitrary: db)
  case Nil
  then show ?case by simp
next
  case (Cons x batch)
  from Cons.prems have "q \<in> set (sync_queue (handleSyncError now db x m))"
    by (intro handleSyncError_other_entry) auto
  moreover from Cons.prems(2) have "\<forall>x \<in> set batch. q_id x \<noteq> q_id q"
    by simp
  ultimately show ?case
    using Cons.IH by simp
qed

lemma failed_batch_stored_entry:
  assumes "distinct (map q_id batch)" "item \<in> set batch" "item \<in> set (sync_queue db)"
  shows "item\<lparr> q_retry_count := q_retry_count item + 1, q_error_message := Some m \<rparr>
           \<in> set (sync_queue (foldl (\<lambda>db item. handleSyncError now db item m) db batch))"
proof -
  from assms(2) obtain xs ys where batch: "batch = xs @ item # ys"
    by (meson split_list)
  with assms(1) have "q_id item \<notin> q_id ` set xs" "q_id item \<notin> q_id ` set ys"
    by auto
  then have xs: "\<forall>x \<in> set xs. q_id x \<noteq> q_id item"
    and ys: "\<forall>x \<in> set ys. q_id x \<noteq> q_id item"
    by (metis imageI)+
  let ?fail = "\<lambda>db item. handleSyncError now db item m"
  have "item \<in> set (sync_queue (foldl ?fail db xs))"
    using assms(3) xs by (rule failed_batch_other_entry)
  then have "item\<lparr> q_retry_count := q_retry_count item + 1, q_error_message := Some m \<rparr>
      \<in> set (sync_queue (handleSyncError now (foldl ?fail db xs) item m))"
    by (rule handleSyncError_stored_entry)
  moreover have "\<forall>x \<in> set ys. q_id x \<noteq>
      q_id (item\<lparr> q_retry_count := q_retry_count item + 1, q_error_message := Some m \<rparr>)"
    using ys by simp
  ultimately have "item\<lparr> q_retry_count := q_retry_count item + 1, q_error_message := Some m \<rparr>
      \<in> set (sync_queue (foldl ?fail (handleSyncError now (foldl ?fail db xs) item m) ys))"
    by (rule failed_batch_other_entry)
  then show ?thesis
    unfolding batch by simp
qed

lemma runAfter_rejected:
  assumes k: "k < length batches" and rejected: "remote env k (batches ! k) = Rejected m"
  shows "rs_failed (runAfter env db batches (Suc k)) =
           rs_failed (runAfter env db batches k) + length (batches ! k)"
    and "rs_synced (runAfter env db batches (Suc k)) = rs_synced (runAfter env db batches k)"
    and "rs_errors (runAfter env db batches (Suc k)) =
           rs_errors (runAfter env db batches k) @
             map (\<lambda>item. \<lparr> e_task_id = q_task_id item, e_operation = q_operation item,
                            e_error = (if m = [] then ''Batch failed'' else m),
                            e_timestamp = sync_clock env \<rparr>) (batches ! k)"
    and "rs_db (runAfter env db batches (Suc k)) =
           foldl (\<lambda>db item. handleSyncError (sync_clock env) db item m)
             (rs_db (runAfter env db batches k)) (batches ! k)"
proof -
  have "remote env (length (rs_sent (runAfter env db batches k))) (batches ! k) = Rejected m"
    using k rejected by (simp add: runAfter_sent)
  note fields = batchStep_rejected_fields [OF this]
  show "rs_failed (runAfter env db batches (Suc k)) =
           rs_failed (runAfter env db batches k) + length (batches ! k)"
    and "rs_synced (runAfter env db batches (Suc k)) = rs_synced (runAfter env db batches k)"
    and "rs_errors (runAfter env db batches (Suc k)) =
           rs_errors (runAfter env db batches k) @
             map (\<lambda>item. \<lparr> e_task_id = q_task_id item, e_operation = q_operation item,
                            e_error = (if m = [] then ''Batch failed'' else m),
                            e_timestamp = sync_clock env \<rparr>) (batches ! k)"
    and "rs_db (runAfter env db batches (Suc k)) =
           foldl (\<lambda>db item. handleSyncError (sync_clock env) db item m)
             (rs_db (runAfter env db batches k)) (batches ! k)"
    unfolding runAfter_Suc [OF k] by (rule fields)+
qed

lemma runAfter_accepted:
  assumes k: "k < length batches" and reply: "remote env k (batches ! k) = Accepted results"
    and clean: "fst (applyResults (sync_clock env) (batches ! k) results
                  ((runAfter env db batches k)
                     \<lparr> rs_sent := rs_sent (runAfter env db batches k) @ [batches ! k] \<rparr>)) = None"
  shows "rs_synced (runAfter env db batches (Suc k)) =
           rs_synced (runAfter env db batches k) +
             length (filter (countsSynced (batches ! k)) results)"
    and "rs_failed (runAfter env db batches (Suc k)) =
           rs_failed (runAfter env db batches k) +
             length (filter (countsFailed (batches ! k)) results)"
proof -
  let ?before = "runAfter env db batches k"
  let ?opened = "?before\<lparr> rs_sent := rs_sent ?before @ [batches ! k] \<rparr>"
  have reply': "remote env (length (rs_sent ?before)) (batches ! k) = Accepted results"
    using k reply by (simp add: runAfter_sent)
  obtain fin where run: "applyResults (sync_clock env) (batches ! k) results ?opened = (None, fin)"
    using clean by (cases "applyResults (sync_clock env) (batches ! k) results ?opened") simp
  have step: "runAfter env db batches (Suc k) = fin"
    unfolding runAfter_Suc [OF k] using reply' run by (rule batchStep_accepted)
  from applyResults_counts [OF run]
  show "rs_synced (runAfter env db batches (Suc k)) =
           rs_synced (runAfter env db batches k) +
             length (filter (countsSynced (batches ! k)) results)"
    and "rs_failed (runAfter env db batches (Suc k)) =
           rs_failed (runAfter env db batches k) +
             length (filter (countsFailed (batches ! k)) results)"
    unfolding step by simp_all
qed

lemma run_grows_after:
  "\<exists>later. rs_errors (syncBatches env (initialState db) batches) =
              rs_errors (runAfter env db batches k) @ later \<and>
           rs_failed (syncBatches env (initialState db) batches) =
              rs_failed (runAfter env db batches k) + length later"
  "rs_synced (runAfter env db batches k) \<le> rs_synced (syncBatches env (initialState db) batches)"
  unfolding runAfter_rest [of env db batches k]
  by (rule syncBatches_frame(2), rule syncBatches_synced_grows)




section \<open>Claims\<close>

text \<open>
  C1. The conflict resolver returns the local task when its \<^verbatim>\<open>updated_at\<close> is
  greater than or equal to the remote one and the remote task otherwise (a tie goes to the
  local task). The result is one of the two arguments, unchanged; the function takes no
  database and returns none.
\<close>

theorem resolveConflict_last_write_wins:
  "(t_updated_at localTask \<ge> t_updated_at serverTask
      \<longrightarrow> resolveConflict localTask serverTask = localTask) \<and>
   (t_updated_at localTask < t_updated_at serverTask
      \<longrightarrow> resolveConflict localTask serverTask = serverTask) \<and>
   (resolveConflict localTask serverTask = localTask \<or>
    resolveConflict localTask serverTask = serverTask)"
  by (simp add: resolveConflict_def)

theorem resolveConflict_last_write_wins_witness:
  "resolveConflict (mapRowToTask (exampleRow ''t1'' 0 10)) (mapRowToTask (exampleRow ''t1'' 0 10))
     = mapRowToTask (exampleRow ''t1'' 0 10) \<and>
   resolveConflict (mapRowToTask (exampleRow ''t1'' 0 5)) (mapRowToTask (exampleRow ''t1'' 0 10))
     = mapRowToTask (exampleRow ''t1'' 0 10)"
  using resolveConflict_last_write_wins
          [of "mapRowToTask (exampleRow ''t1'' 0 10)" "mapRowToTask (exampleRow ''t1'' 0 10)"]
        resolveConflict_last_write_wins
          [of "mapRowToTask (exampleRow ''t1'' 0 10)" "mapRowToTask (exampleRow ''t1'' 0 5)"]
  by (simp add: mapRowToTask_def exampleRow_def)

text \<open>
  C8. A valid create (with identifiers not yet in use) returns a task with
  \<^verbatim>\<open>sync_status = pending\<close>, and exactly one queue entry references it, with
  operation create. An update or a delete of an existing task sets the status of its rows
  to pending and appends one entry to the queue, whose earlier entries all stay in place.
\<close>

theorem mutation_marks_pending_and_enqueues:
  "(in_title taskData = Some title \<and> title \<noteq> [] \<and>
    \<not> store_write_fails env \<and> \<not> queue_write_fails env \<and>
    new_task_id env \<notin> row_id ` set (tasks db) \<and>
    new_task_id env \<notin> q_task_id ` set (sync_queue db) \<longrightarrow>
      (\<exists>created entry.
         fst (createTask env db taskData) = Inr (Some created) \<and>
         t_id created = new_task_id env \<and> t_title created = title \<and>
         t_sync_status created = Pending \<and>
         (\<forall>r \<in> set (tasks (snd (createTask env db taskData))).
            row_id r = new_task_id env \<longrightarrow> row_sync_status r = Pending) \<and>
         filter (\<lambda>q. q_task_id q = new_task_id env)
           (sync_queue (snd (createTask env db taskData))) = [entry] \<and>
         q_operation entry = Create)) \<and>
   (selectTask db i = Some existing \<and> \<not> store_write_fails env \<and> \<not> queue_write_fails env \<longrightarrow>
      (\<exists>entry.
         (\<forall>r \<in> set (tasks (snd (updateTask env db i updates))).
            row_id r = i \<longrightarrow> row_sync_status r = Pending) \<and>
         sync_queue (snd (updateTask env db i updates)) = sync_queue db @ [entry] \<and>
         q_task_id entry = i \<and> q_operation entry = Update) \<and>
      (\<exists>entry.
         fst (deleteTask env db i) = Inr True \<and>
         (\<forall>r \<in> set (tasks (snd (deleteTask env db i))).
            row_id r = i \<longrightarrow> row_sync_status r = Pending) \<and>
         sync_queue (snd (deleteTask env db i)) = sync_queue db @ [entry] \<and>
         q_task_id entry = i \<and> q_operation entry = Delete))"
proof (intro conjI impI)
  assume valid: "in_title taskData = Some title \<and> title \<noteq> [] \<and>
    \<not> store_write_fails env \<and> \<not> queue_write_fails env \<and>
    new_task_id env \<notin> row_id ` set (tasks db) \<and>
    new_task_id env \<notin> q_task_id ` set (sync_queue db)"
  then have a: "in_title taskData = Some title" "title \<noteq> []"
    "\<not> store_write_fails env" "\<not> queue_write_fails env"
    and fresh_row: "new_task_id env \<notin> row_id ` set (tasks db)"
    and fresh_entry: "new_task_id env \<notin> q_task_id ` set (sync_queue db)"
    by simp_all
  obtain created where created:
    "fst (createTask env db taskData) = Inr (Some created)" "t_id created = new_task_id env"
    "t_title created = title" "t_sync_status created = Pending"
    using createTask_result [OF a fresh_row] by blast
  obtain entry where entry:
    "filter (\<lambda>q. q_task_id q = new_task_id env)
       (sync_queue (snd (createTask env db taskData))) = [entry]" "q_operation entry = Create"
    using createTask_queue [OF a fresh_entry] by blast
  have rows: "\<forall>r \<in> set (tasks (snd (createTask env db taskData))).
      row_id r = new_task_id env \<longrightarrow> row_sync_status r = Pending"
    using createTask_rows [OF a fresh_row] by blast
  from created entry rows
  show "\<exists>created entry.
         fst (createTask env db taskData) = Inr (Some created) \<and>
         t_id created = new_task_id env \<and> t_title created = title \<and>
         t_sync_status created = Pending \<and>
         (\<forall>r \<in> set (tasks (snd (createTask env db taskData))).
            row_id r = new_task_id env \<longrightarrow> row_sync_status r = Pending) \<and>
         filter (\<lambda>q. q_task_id q = new_task_id env)
           (sync_queue (snd (createTask env db taskData))) = [entry] \<and>
         q_operation entry = Create"
    by blast
next
  assume "selectTask db i = Some existing \<and> \<not> store_write_fails env \<and> \<not> queue_write_fails env"
  then have a: "selectTask db i = Some existing" "\<not> store_write_fails env"
    "\<not> queue_write_fails env"
    by simp_all
  obtain dat where queue: "sync_queue (snd (updateTask env db i updates)) = sync_queue db @
           [\<lparr> q_id = new_queue_id env, q_task_id = i, q_operation = Update, q_data = dat,
              q_created_at = clock env, q_retry_count = 0, q_error_message = None \<rparr>]"
    using updateTask_done(2) [OF a] by blast
  have rows: "\<forall>r \<in> set (tasks (snd (updateTask env db i updates))).
      row_id r = i \<longrightarrow> row_sync_status r = Pending"
    using updateTask_rows [OF a] by blast
  show "\<exists>entry.
         (\<forall>r \<in> set (tasks (snd (updateTask env db i updates))).
            row_id r = i \<longrightarrow> row_sync_status r = Pending) \<and>
         sync_queue (snd (updateTask env db i updates)) = sync_queue db @ [entry] \<and>
         q_task_id entry = i \<and> q_operation entry = Update"
    using rows by (simp add: queue)
next
  assume "selectTask db i = Some existing \<and> \<not> store_write_fails env \<and> \<not> queue_write_fails env"
  then have a: "selectTask db i = Some existing" "\<not> store_write_fails env"
    "\<not> queue_write_fails env"
    by simp_all
  obtain dat where queue: "sync_queue (snd (deleteTask env db i)) = sync_queue db @
           [\<lparr> q_id = new_queue_id env, q_task_id = i, q_operation = Delete, q_data = dat,
              q_created_at = clock env, q_retry_count = 0, q_error_message = None \<rparr>]"
    using deleteTask_done(2) [OF a] by blast
  have rows: "\<forall>r \<in> set (tasks (snd (deleteTask env db i))).
      row_id r = i \<longrightarrow> row_sync_status r = Pending"
    using deleteTask_rows [OF a] by blast
  show "\<exists>entry.
         fst (deleteTask env db i) = Inr True \<and>
         (\<forall>r \<in> set (tasks (snd (deleteTask env db i))).
            row_id r = i \<longrightarrow> row_sync_status r = Pending) \<and>
         sync_queue (snd (deleteTask env db i)) = sync_queue db @ [entry] \<and>
         q_task_id entry = i \<and> q_operation entry = Delete"
    using rows deleteTask_done(3) [OF a] by (simp add: queue)
qed

theorem mutation_marks_pending_and_enqueues_witness:
  "(in_title exampleInput = Some ''Walk dog'' \<and>
    new_task_id (exampleOpEnv False False) \<notin> row_id ` set (tasks liveDb) \<and>
    new_task_id (exampleOpEnv False False) \<notin> q_task_id ` set (sync_queue liveDb) \<and>
    selectTask liveDb ''t1'' = Some (exampleRow ''t1'' 0 100)) \<and>
   (\<exists>created entry.
      fst (createTask (exampleOpEnv False False) liveDb exampleInput) = Inr (Some created) \<and>
      t_sync_status created = Pending \<and>
      filter (\<lambda>q. q_task_id q = ''t2'')
        (sync_queue (snd (createTask (exampleOpEnv False False) liveDb exampleInput))) = [entry] \<and>
      q_operation entry = Create) \<and>
   (\<exists>entry. sync_queue (snd (updateTask (exampleOpEnv False False) liveDb ''t1'' exampleInput))
        = [exampleEntry ''q1'' ''t1'' Create 100 0, entry] \<and> q_operation entry = Update) \<and>
   (\<exists>entry. sync_queue (snd (deleteTask (exampleOpEnv False False) liveDb ''t1''))
        = [exampleEntry ''q1'' ''t1'' Create 100 0, entry] \<and> q_operation entry = Delete)"
proof -
  have create_ok: "in_title exampleInput = Some ''Walk dog'' \<and> ''Walk dog'' \<noteq> [] \<and>
      \<not> store_write_fails (exampleOpEnv False False) \<and>
      \<not> queue_write_fails (exampleOpEnv False False) \<and>
      new_task_id (exampleOpEnv False False) \<notin> row_id ` set (tasks liveDb) \<and>
      new_task_id (exampleOpEnv False False) \<notin> q_task_id ` set (sync_queue liveDb)"
    by (simp add: example_defs)
  have exists_ok: "selectTask liveDb ''t1'' = Some (exampleRow ''t1'' 0 100) \<and>
      \<not> store_write_fails (exampleOpEnv False False) \<and>
      \<not> queue_write_fails (exampleOpEnv False False)"
    by (simp add: example_defs selectTask_def)
  have new_id: "new_task_id (exampleOpEnv False False) = ''t2''"
    and old_queue: "sync_queue liveDb = [exampleEntry ''q1'' ''t1'' Create 100 0]"
    by (simp_all add: exampleOpEnv_def liveDb_def)
  note claim = mutation_marks_pending_and_enqueues
      [of exampleInput "''Walk dog''" "exampleOpEnv False False" liveDb "''t1''"
          "exampleRow ''t1'' 0 100" exampleInput]
  from claim create_ok exists_ok show ?thesis
    unfolding new_id old_queue by (simp only: append_Cons append_Nil) blast
qed


text \<open>
  C4, as the code has it. The two writes of a mutating operation are separate statements,
  with no transaction around them. When both succeed, the task row is written with
  \<^verbatim>\<open>sync_status = pending\<close> and the new \<^verbatim>\<open>updated_at\<close>, and one entry is
  appended to the queue. When the store write fails, the operation stops with the database
  unchanged, so no queue entry is left behind. When the queue append fails, the operation
  stops after the store write, which is kept: the row is written and the queue is unchanged.
\<close>

theorem mutation_writes_are_separate:
  "(in_title taskData = Some title \<and> title \<noteq> [] \<longrightarrow>
      (store_write_fails env \<longrightarrow> createTask env db taskData = (Inl WriteFailed, db)) \<and>
      (\<not> store_write_fails env \<and> queue_write_fails env \<longrightarrow>
         fst (createTask env db taskData) = Inl WriteFailed \<and>
         sync_queue (snd (createTask env db taskData)) = sync_queue db \<and>
         (\<exists>row. tasks (snd (createTask env db taskData)) = tasks db @ [row] \<and>
            row_id row = new_task_id env \<and> row_sync_status row = Pending \<and>
            row_updated_at row = clock env)) \<and>
      (\<not> store_write_fails env \<and> \<not> queue_write_fails env \<longrightarrow>
         (\<exists>row entry.
            snd (createTask env db taskData) =
              \<lparr> tasks = tasks db @ [row], sync_queue = sync_queue db @ [entry] \<rparr> \<and>
            row_id row = new_task_id env \<and> row_sync_status row = Pending \<and>
            row_updated_at row = clock env \<and>
            q_task_id entry = new_task_id env \<and> q_operation entry = Create))) \<and>
   (selectTask db i = Some existing \<longrightarrow>
      ((store_write_fails env \<longrightarrow> updateTask env db i updates = (Inl WriteFailed, db)) \<and>
       (\<not> store_write_fails env \<and> queue_write_fails env \<longrightarrow>
          fst (updateTask env db i updates) = Inl WriteFailed \<and>
          sync_queue (snd (updateTask env db i updates)) = sync_queue db \<and>
          (\<forall>r \<in> set (tasks (snd (updateTask env db i updates))).
             row_id r = i \<longrightarrow> row_sync_status r = Pending \<and> row_updated_at r = clock env)) \<and>
       (\<not> store_write_fails env \<and> \<not> queue_write_fails env \<longrightarrow>
          (\<exists>entry. sync_queue (snd (updateTask env db i updates)) = sync_queue db @ [entry] \<and>
             q_task_id entry = i \<and> q_operation entry = Update) \<and>
          (\<forall>r \<in> set (tasks (snd (updateTask env db i updates))).
             row_id r = i \<longrightarrow> row_sync_status r = Pending \<and> row_updated_at r = clock env))) \<and>
      ((store_write_fails env \<longrightarrow> deleteTask env db i = (Inl WriteFailed, db)) \<and>
       (\<not> store_write_fails env \<and> queue_write_fails env \<longrightarrow>
          fst (deleteTask env db i) = Inl WriteFailed \<and>
          sync_queue (snd (deleteTask env db i)) = sync_queue db \<and>
          (\<forall>r \<in> set (tasks (snd (deleteTask env db i))).
             row_id r = i \<longrightarrow> row_sync_status r = Pending \<and> row_updated_at r = clock env)) \<and>
       (\<not> store_write_fails env \<and> \<not> queue_write_fails env \<longrightarrow>
          (\<exists>entry. sync_queue (snd (deleteTask env db i)) = sync_queue db @ [entry] \<and>
             q_task_id entry = i \<and> q_operation entry = Delete) \<and>
          (\<forall>r \<in> set (tasks (snd (deleteTask env db i))).
             row_id r = i \<longrightarrow> row_sync_status r = Pending \<and> row_updated_at r = clock env))))"
proof (rule conjI; rule impI)
  assume "in_title taskData = Some title \<and> title \<noteq> []"
  then have valid: "in_title taskData = Some title" "title \<noteq> []"
    by simp_all
  show "(store_write_fails env \<longrightarrow> createTask env db taskData = (Inl WriteFailed, db)) \<and>
      (\<not> store_write_fails env \<and> queue_write_fails env \<longrightarrow>
         fst (createTask env db taskData) = Inl WriteFailed \<and>
         sync_queue (snd (createTask env db taskData)) = sync_queue db \<and>
         (\<exists>row. tasks (snd (createTask env db taskData)) = tasks db @ [row] \<and>
            row_id row = new_task_id env \<and> row_sync_status row = Pending \<and>
            row_updated_at row = clock env)) \<and>
      (\<not> store_write_fails env \<and> \<not> queue_write_fails env \<longrightarrow>
         (\<exists>row entry.
            snd (createTask env db taskData) =
              \<lparr> tasks = tasks db @ [row], sync_queue = sync_queue db @ [entry] \<rparr> \<and>
            row_id row = new_task_id env \<and> row_sync_status row = Pending \<and>
            row_updated_at row = clock env \<and>
            q_task_id entry = new_task_id env \<and> q_operation entry = Create))"
    by (rule conjI createTask_writes [OF valid])+
next
  assume found: "selectTask db i = Some existing"
  show "((store_write_fails env \<longrightarrow> updateTask env db i updates = (Inl WriteFailed, db)) \<and>
       (\<not> store_write_fails env \<and> queue_write_fails env \<longrightarrow>
          fst (updateTask env db i updates) = Inl WriteFailed \<and>
          sync_queue (snd (updateTask env db i updates)) = sync_queue db \<and>
          (\<forall>r \<in> set (tasks (snd (updateTask env db i updates))).
             row_id r = i \<longrightarrow> row_sync_status r = Pending \<and> row_updated_at r = clock env)) \<and>
       (\<not> store_write_fails env \<and> \<not> queue_write_fails env \<longrightarrow>
          (\<exists>entry. sync_queue (snd (updateTask env db i updates)) = sync_queue db @ [entry] \<and>
             q_task_id entry = i \<and> q_operation entry = Update) \<and>
          (\<forall>r \<in> set (tasks (snd (updateTask env db i updates))).
             row_id r = i \<longrightarrow> row_sync_status r = Pending \<and> row_updated_at r = clock env))) \<and>
      ((store_write_fails env \<longrightarrow> deleteTask env db i = (Inl WriteFailed, db)) \<and>
       (\<not> store_write_fails env \<and> queue_write_fails env \<longrightarrow>
          fst (deleteTask env db i) = Inl WriteFailed \<and>
          sync_queue (snd (deleteTask env db i)) = sync_queue db \<and>
          (\<forall>r \<in> set (tasks (snd (deleteTask env db i))).
             row_id r = i \<longrightarrow> row_sync_status r = Pending \<and> row_updated_at r = clock env)) \<and>
       (\<not> store_write_fails env \<and> \<not> queue_write_fails env \<longrightarrow>
          (\<exists>entry. sync_queue (snd (deleteTask env db i)) = sync_queue db @ [entry] \<and>
             q_task_id entry = i \<and> q_operation entry = Delete) \<and>
          (\<forall>r \<in> set (tasks (snd (deleteTask env db i))).
             row_id r = i \<longrightarrow> row_sync_status r = Pending \<and> row_updated_at r = clock env)))"
    by (rule conjI updateTask_writes [OF found] deleteTask_writes [OF found])+
qed

theorem mutation_writes_are_separate_witness:
  "(in_title exampleInput = Some ''Walk dog'' \<and>
    selectTask liveDb ''t1'' = Some (exampleRow ''t1'' 0 100) \<and>
    store_write_fails (exampleOpEnv True False) \<and>
    \<not> store_write_fails (exampleOpEnv False True) \<and> queue_write_fails (exampleOpEnv False True) \<and>
    \<not> store_write_fails (exampleOpEnv False False) \<and>
    \<not> queue_write_fails (exampleOpEnv False False)) \<and>
   createTask (exampleOpEnv True False) liveDb exampleInput = (Inl WriteFailed, liveDb) \<and>
   updateTask (exampleOpEnv True False) liveDb ''t1'' exampleInput = (Inl WriteFailed, liveDb) \<and>
   deleteTask (exampleOpEnv True False) liveDb ''t1'' = (Inl WriteFailed, liveDb) \<and>
   fst (createTask (exampleOpEnv False True) liveDb exampleInput) = Inl WriteFailed \<and>
   sync_queue (snd (createTask (exampleOpEnv False True) liveDb exampleInput)) = sync_queue liveDb \<and>
   fst (deleteTask (exampleOpEnv False True) liveDb ''t1'') = Inl WriteFailed \<and>
   sync_queue (snd (deleteTask (exampleOpEnv False True) liveDb ''t1'')) = sync_queue liveDb \<and>
   (\<exists>entry. sync_queue (snd (updateTask (exampleOpEnv False False) liveDb ''t1'' exampleInput))
        = sync_queue liveDb @ [entry] \<and> q_operation entry = Update)"
proof -
  have valid: "in_title exampleInput = Some ''Walk dog'' \<and> ''Walk dog'' \<noteq> []"
    by (simp add: exampleInput_def)
  have found: "selectTask liveDb ''t1'' = Some (exampleRow ''t1'' 0 100)"
    by (simp add: example_defs selectTask_def)
  have flags: "store_write_fails (exampleOpEnv True False)"
    "\<not> store_write_fails (exampleOpEnv False True) \<and> queue_write_fails (exampleOpEnv False True)"
    "\<not> store_write_fails (exampleOpEnv False False) \<and>
     \<not> queue_write_fails (exampleOpEnv False False)"
    by (simp_all add: exampleOpEnv_def)
  note store = mutation_writes_are_separate
      [of exampleInput "''Walk dog''" "exampleOpEnv True False" liveDb "''t1''"
          "exampleRow ''t1'' 0 100" exampleInput]
  note queue = mutation_writes_are_separate
      [of exampleInput "''Walk dog''" "exampleOpEnv False True" liveDb "''t1''"
          "exampleRow ''t1'' 0 100" exampleInput]
  note both = mutation_writes_are_separate
      [of exampleInput "''Walk dog''" "exampleOpEnv False False" liveDb "''t1''"
          "exampleRow ''t1'' 0 100" exampleInput]
  have s: "createTask (exampleOpEnv True False) liveDb exampleInput = (Inl WriteFailed, liveDb)"
    "updateTask (exampleOpEnv True False) liveDb ''t1'' exampleInput = (Inl WriteFailed, liveDb)"
    "deleteTask (exampleOpEnv True False) liveDb ''t1'' = (Inl WriteFailed, liveDb)"
    using store valid found flags(1) by blast+
  have q: "fst (createTask (exampleOpEnv False True) liveDb exampleInput) = Inl WriteFailed"
    "sync_queue (snd (createTask (exampleOpEnv False True) liveDb exampleInput)) = sync_queue liveDb"
    "fst (deleteTask (exampleOpEnv False True) liveDb ''t1'') = Inl WriteFailed"
    "sync_queue (snd (deleteTask (exampleOpEnv False True) liveDb ''t1'')) = sync_queue liveDb"
    using queue valid found flags(2) by blast+
  have b: "\<exists>entry. sync_queue (snd (updateTask (exampleOpEnv False False) liveDb ''t1'' exampleInput))
        = sync_queue liveDb @ [entry] \<and> q_operation entry = Update"
    using both found flags(3) by blast
  from valid found flags s q b show ?thesis
    by blast
qed


text \<open>
  C4 as stated fails: an update whose queue append is rejected leaves the row changed and
  the queue as it was.
\<close>

theorem queue_append_failure_keeps_store_write:
  "queue_write_fails (exampleOpEnv False True) \<and>
   fst (updateTask (exampleOpEnv False True) liveDb ''t1'' exampleInput) = Inl WriteFailed \<and>
   tasks liveDb = [exampleRow ''t1'' 0 100] \<and>
   tasks (snd (updateTask (exampleOpEnv False True) liveDb ''t1'' exampleInput)) =
     [(exampleRow ''t1'' 0 500)\<lparr> row_title := ''Walk dog'' \<rparr>] \<and>
   sync_queue (snd (updateTask (exampleOpEnv False True) liveDb ''t1'' exampleInput)) =
     sync_queue liveDb"
  by (simp add: example_defs updateTask_def selectTask_def Let_def)

text \<open>
  C9 at a soft-deleted task: \<^verbatim>\<open>getTask\<close> returns null, but
  \<^verbatim>\<open>updateTask\<close> rewrites the row and appends a queue entry before it returns
  null, and \<^verbatim>\<open>deleteTask\<close> rewrites the row, appends a queue entry and returns
  true. (For an id with no row at all, \<open>absent_task_not_found\<close> gives the behaviour of
  the claim.)
\<close>

theorem soft_deleted_task_is_mutated:
  "getTask deletedDb ''t1'' = None \<and>
   updateTask (exampleOpEnv False False) deletedDb ''t1'' exampleInput =
     (Inr None,
      \<lparr> tasks = [(exampleRow ''t1'' 1 500)\<lparr> row_title := ''Walk dog'' \<rparr>],
        sync_queue =
          [(exampleEntry ''q2'' ''t1'' Update 500 0)
             \<lparr> q_data := \<lparr> d_id = ''t1'', d_title = Some ''Walk dog'', d_description = None,
                            d_completed = Some False, d_updated_at = 500 \<rparr> \<rparr>] \<rparr>) \<and>
   deleteTask (exampleOpEnv False False) deletedDb ''t1'' =
     (Inr True,
      \<lparr> tasks = [exampleRow ''t1'' 1 500],
        sync_queue = [exampleEntry ''q2'' ''t1'' Delete 500 0] \<rparr>)"
  by (simp add: example_defs updateTask_def deleteTask_def getTask_def selectTask_def Let_def
        insertQueue_def)


text \<open>
  C5. When the health request fails, the handler of \<^verbatim>\<open>POST /sync\<close> answers 503
  with \<^verbatim>\<open>Server unreachable\<close> and never calls \<^verbatim>\<open>sync\<close>: the database
  (task store and queue) is the one it started with and no batch is transmitted.
\<close>

theorem unreachable_remote_no_writes:
  assumes "\<not> health_ok env"
  shows "\<not> checkConnectivity env \<and> postSync env db = Some (Error503 ''Server unreachable'', db, [])"
  using assms by (simp add: postSync_def checkConnectivity_def)

theorem unreachable_remote_no_writes_witness:
  "\<not> health_ok (exampleSyncEnv False None noResults) \<and>
   postSync (exampleSyncEnv False None noResults) liveDb =
     Some (Error503 ''Server unreachable'', liveDb, [])"
proof -
  have offline: "\<not> health_ok (exampleSyncEnv False None noResults)"
    by (simp add: exampleSyncEnv_def)
  from unreachable_remote_no_writes [OF offline, of liveDb] offline show ?thesis
    by simp
qed

text \<open>
  C6. With a positive configured batch size \<open>b\<close> (50 when the variable is not set), a
  sync run returns, and the batches it transmitted, in order, are the consecutive groups
  of the queue as read: their concatenation is the queue sorted by \<^verbatim>\<open>created_at\<close>
  (a permutation of the stored queue, oldest first, entries of equal time in insertion
  order), and no batch is empty or longer than \<open>b\<close>. A queue of 120 entries with batch
  size 50 gives exactly three transmissions, of 50, 50 and 20 entries.
\<close>

theorem sync_batches_in_order:
  assumes "configuredBatchSize env = Num b" "0 < b"
  shows "\<exists>result db' sent.
           sync env db = Some (result, db', sent) \<and>
           sent = chunks (nat b) (readQueue db) \<and>
           concat sent = readQueue db \<and>
           (\<forall>batch \<in> set sent. batch \<noteq> [] \<and> length batch \<le> nat b) \<and>
           mset (readQueue db) = mset (sync_queue db) \<and>
           sorted (map q_created_at (readQueue db)) \<and>
           (\<forall>t. filter (\<lambda>q. q_created_at q = t) (readQueue db) =
                filter (\<lambda>q. q_created_at q = t) (sync_queue db)) \<and>
           (b = 50 \<and> length (sync_queue db) = 120 \<longrightarrow> map length sent = [50, 50, 20]) \<and>
           (batch_size_var env = None \<longrightarrow> b = 50)"
proof -
  let ?sent = "chunks (nat b) (readQueue db)"
  let ?final = "syncBatches env (initialState db) ?sent"
  have run: "sync env db = Some (summary ?final)"
    using assms by (rule sync_positive)
  have sent: "rs_sent ?final = ?sent"
    by (simp add: syncBatches_frame(1))
  have returned: "sync env db = Some (fst (summary ?final), rs_db ?final, ?sent)"
    unfolding run using sent by (simp add: summary_def)
  have whole: "concat ?sent = readQueue db"
    using assms(2) by (simp add: concat_chunks)
  have bounded: "\<forall>batch \<in> set ?sent. batch \<noteq> [] \<and> length batch \<le> nat b"
    using chunks_bounded by blast
  have perm: "mset (readQueue db) = mset (sync_queue db)"
    by (simp add: readQueue_def)
  have ordered: "sorted (map q_created_at (readQueue db))"
    by (simp add: readQueue_def)
  have stable: "\<forall>t. filter (\<lambda>q. q_created_at q = t) (readQueue db) =
      filter (\<lambda>q. q_created_at q = t) (sync_queue db)"
    by (simp add: readQueue_def sort_key_stable)
  have scenario: "b = 50 \<and> length (sync_queue db) = 120 \<longrightarrow> map length ?sent = [50, 50, 20]"
    by (simp add: chunks_120_by_50 length_readQueue)
  have default: "batch_size_var env = None \<longrightarrow> b = 50"
    using assms(1) default_batch_size [of env] by auto
  show ?thesis
    by (intro exI conjI, rule returned, rule refl, rule whole, rule bounded, rule perm,
        rule ordered, rule stable, rule scenario, rule default)
qed

theorem sync_batches_in_order_witness:
  "configuredBatchSize (exampleSyncEnv True (Some ''2'') noResults) = Num 2 \<and> (0::int) < 2 \<and>
   (\<exists>result db'.
      sync (exampleSyncEnv True (Some ''2'') noResults) unorderedDb =
        Some (result, db',
              [[exampleEntry ''q1'' ''t1'' Create 10 0, exampleEntry ''q2'' ''t2'' Create 20 0],
               [exampleEntry ''q3'' ''t3'' Create 30 0]]))"
proof -
  have size: "configuredBatchSize (exampleSyncEnv True (Some ''2'') noResults) = Num 2"
    by (simp add: configuredBatchSize_def exampleSyncEnv_def parseInt10_def isWhiteSpace_def
          isDigit_def)
  have positive: "(0::int) < 2"
    by simp
  have queue: "readQueue unorderedDb =
      [exampleEntry ''q1'' ''t1'' Create 10 0, exampleEntry ''q2'' ''t2'' Create 20 0,
       exampleEntry ''q3'' ''t3'' Create 30 0]"
    by (simp add: readQueue_def unorderedDb_def exampleEntry_def)
  have groups: "chunks (nat 2) (readQueue unorderedDb) =
      [[exampleEntry ''q1'' ''t1'' Create 10 0, exampleEntry ''q2'' ''t2'' Create 20 0],
       [exampleEntry ''q3'' ''t3'' Create 30 0]]"
    unfolding queue by (simp add: chunks_step)
  obtain result db' sent where
    "sync (exampleSyncEnv True (Some ''2'') noResults) unorderedDb = Some (result, db', sent)"
    "sent = chunks (nat 2) (readQueue unorderedDb)"
    using sync_batches_in_order [OF size positive, of unorderedDb] by blast
  then have "\<exists>result db'.
      sync (exampleSyncEnv True (Some ''2'') noResults) unorderedDb =
        Some (result, db',
              [[exampleEntry ''q1'' ''t1'' Create 10 0, exampleEntry ''q2'' ''t2'' Create 20 0],
               [exampleEntry ''q3'' ''t3'' Create 30 0]])"
    unfolding groups by blast
  with size positive show ?thesis
    by (intro conjI)
qed

text \<open>
  C3, as the code has it. A result with status error, a conflict result without resolution
  data, and every item of a batch whose transmission failed all go through
  \<^verbatim>\<open>handleSyncError\<close> with the entry as it was read at the start of the run (for
  a result, the first entry of the batch with the result's task id). That call removes no
  queue entry; it sets the \<^verbatim>\<open>retry_count\<close> of the stored entry with the entry's id
  to one more than the count read and stores the message on it, so that an entry still
  stored as read has its count raised by one; when the new count is 3 or more every row of
  the entry's task gets \<^verbatim>\<open>sync_status = error\<close>, and below 3 the task table is
  unchanged. The same holds for each item after a whole batch (of entries with distinct
  ids) failed.
\<close>

theorem failure_counted_on_entry:
  "(find (\<lambda>b. q_task_id b = p_client_id processed) batch = Some original \<and>
    (p_status processed = Failure \<or>
     (p_status processed = Conflict \<and> p_resolved_data processed = None)) \<longrightarrow>
      applyProcessed now batch processed st =
        Inr (recordFailure now original
               (if p_status processed = Conflict then ''Conflict without resolution data''
                else orDefault (p_error processed) ''Unknown error'')
               (if p_status processed = Conflict then ''Conflict without resolution data''
                else orDefault (p_error processed) ''Unknown error'') st)) \<and>
   rs_db (recordFailure now entry message reported st) =
     handleSyncError now (rs_db st) entry message \<and>
   (remote env (length (rs_sent st)) batch = Rejected m \<longrightarrow>
      rs_db (batchStep env batch st) =
        foldl (\<lambda>db item. handleSyncError (sync_clock env) db item m) (rs_db st) batch) \<and>
   map q_id (sync_queue (handleSyncError now db entry message)) = map q_id (sync_queue db) \<and>
   (\<forall>q \<in> set (sync_queue (handleSyncError now db entry message)).
      q_id q = q_id entry \<longrightarrow>
      q_retry_count q = q_retry_count entry + 1 \<and> q_error_message q = Some message) \<and>
   (entry \<in> set (sync_queue db) \<longrightarrow>
      entry\<lparr> q_retry_count := q_retry_count entry + 1, q_error_message := Some message \<rparr>
        \<in> set (sync_queue (handleSyncError now db entry message))) \<and>
   (3 \<le> q_retry_count entry + 1 \<longrightarrow>
      (\<forall>r \<in> set (tasks (handleSyncError now db entry message)).
         row_id r = q_task_id entry \<longrightarrow> row_sync_status r = Error)) \<and>
   (q_retry_count entry + 1 < 3 \<longrightarrow> tasks (handleSyncError now db entry message) = tasks db) \<and>
   map q_id (sync_queue (foldl (\<lambda>db item. handleSyncError now db item m) db batch))
     = map q_id (sync_queue db) \<and>
   (distinct (map q_id batch) \<longrightarrow>
      (\<forall>item \<in> set batch.
         \<forall>q \<in> set (sync_queue (foldl (\<lambda>db item. handleSyncError now db item m) db batch)).
           q_id q = q_id item \<longrightarrow>
           q_retry_count q = q_retry_count item + 1 \<and> q_error_message q = Some m)) \<and>
   (\<forall>item \<in> set batch. 3 \<le> q_retry_count item + 1 \<longrightarrow>
      (\<forall>r \<in> set (tasks (foldl (\<lambda>db item. handleSyncError now db item m) db batch)).
         row_id r = q_task_id item \<longrightarrow> row_sync_status r = Error))"
proof (intro conjI)
  show "find (\<lambda>b. q_task_id b = p_client_id processed) batch = Some original \<and>
    (p_status processed = Failure \<or>
     (p_status processed = Conflict \<and> p_resolved_data processed = None)) \<longrightarrow>
      applyProcessed now batch processed st =
        Inr (recordFailure now original
               (if p_status processed = Conflict then ''Conflict without resolution data''
                else orDefault (p_error processed) ''Unknown error'')
               (if p_status processed = Conflict then ''Conflict without resolution data''
                else orDefault (p_error processed) ''Unknown error'') st)"
    using applyProcessed_failure [of processed batch original now st] by (intro impI) (elim conjE)
  show "rs_db (recordFailure now entry message reported st) =
     handleSyncError now (rs_db st) entry message"
    by simp
  show "remote env (length (rs_sent st)) batch = Rejected m \<longrightarrow>
      rs_db (batchStep env batch st) =
        foldl (\<lambda>db item. handleSyncError (sync_clock env) db item m) (rs_db st) batch"
    using batchStep_rejected_fields(4) [of env st batch m] by blast
  show "map q_id (sync_queue (handleSyncError now db entry message)) = map q_id (sync_queue db)"
    by (rule handleSyncError_ids)
  show "\<forall>q \<in> set (sync_queue (handleSyncError now db entry message)).
      q_id q = q_id entry \<longrightarrow>
      q_retry_count q = q_retry_count entry + 1 \<and> q_error_message q = Some message"
    using handleSyncError_entry [of _ now db entry message] by blast
  show "entry \<in> set (sync_queue db) \<longrightarrow>
      entry\<lparr> q_retry_count := q_retry_count entry + 1, q_error_message := Some message \<rparr>
        \<in> set (sync_queue (handleSyncError now db entry message))"
    using handleSyncError_stored_entry [of entry db message now] by blast
  show "3 \<le> q_retry_count entry + 1 \<longrightarrow>
      (\<forall>r \<in> set (tasks (handleSyncError now db entry message)).
         row_id r = q_task_id entry \<longrightarrow> row_sync_status r = Error)"
    using handleSyncError_marks_error [of entry _ now db message] by blast
  show "q_retry_count entry + 1 < 3 \<longrightarrow> tasks (handleSyncError now db entry message) = tasks db"
    using handleSyncError_below_limit [of entry now db message] by blast
  show "map q_id (sync_queue (foldl (\<lambda>db item. handleSyncError now db item m) db batch))
     = map q_id (sync_queue db)"
    by (rule failed_batch_ids)
  show "distinct (map q_id batch) \<longrightarrow>
      (\<forall>item \<in> set batch.
         \<forall>q \<in> set (sync_queue (foldl (\<lambda>db item. handleSyncError now db item m) db batch)).
           q_id q = q_id item \<longrightarrow>
           q_retry_count q = q_retry_count item + 1 \<and> q_error_message q = Some m)"
    using failed_batch_entry [of batch _ _ now m db] by blast
  show "\<forall>item \<in> set batch. 3 \<le> q_retry_count item + 1 \<longrightarrow>
      (\<forall>r \<in> set (tasks (foldl (\<lambda>db item. handleSyncError now db item m) db batch)).
         row_id r = q_task_id item \<longrightarrow> row_sync_status r = Error)"
    using failed_batch_marks_error [of _ batch _ now m db] by blast
qed


theorem failure_counted_on_entry_witness:
  "(find (\<lambda>b. q_task_id b = p_client_id (exampleResult ''t1'' Failure None None (Some ''Rejected'')))
      [exampleEntry ''q1'' ''t1'' Update 100 2] = Some (exampleEntry ''q1'' ''t1'' Update 100 2) \<and>
    p_status (exampleResult ''t1'' Failure None None (Some ''Rejected'')) = Failure \<and>
    remote (exampleSyncEnv True None rejectAll) (length (rs_sent (initialState retriedDb)))
      [exampleEntry ''q1'' ''t1'' Update 100 2] = Rejected ''Network Error'' \<and>
    exampleEntry ''q1'' ''t1'' Update 100 2 \<in> set (sync_queue retriedDb) \<and>
    3 \<le> q_retry_count (exampleEntry ''q1'' ''t1'' Update 100 2) + 1 \<and>
    distinct (map q_id [exampleEntry ''q1'' ''t1'' Update 100 2])) \<and>
   applyProcessed 900 [exampleEntry ''q1'' ''t1'' Update 100 2]
       (exampleResult ''t1'' Failure None None (Some ''Rejected'')) (initialState retriedDb) =
     Inr (recordFailure 900 (exampleEntry ''q1'' ''t1'' Update 100 2) ''Rejected'' ''Rejected''
            (initialState retriedDb)) \<and>
   rs_db (batchStep (exampleSyncEnv True None rejectAll)
            [exampleEntry ''q1'' ''t1'' Update 100 2] (initialState retriedDb)) =
     handleSyncError 900 retriedDb (exampleEntry ''q1'' ''t1'' Update 100 2) ''Network Error'' \<and>
   (exampleEntry ''q1'' ''t1'' Update 100 2)
       \<lparr> q_retry_count := 3, q_error_message := Some ''Rejected'' \<rparr>
     \<in> set (sync_queue (handleSyncError 900 retriedDb
                (exampleEntry ''q1'' ''t1'' Update 100 2) ''Rejected'')) \<and>
   row_sync_status (hd (tasks (handleSyncError 900 retriedDb
                (exampleEntry ''q1'' ''t1'' Update 100 2) ''Rejected''))) = Error"
proof -
  let ?e = "exampleEntry ''q1'' ''t1'' Update 100 2"
  let ?p = "exampleResult ''t1'' Failure None None (Some ''Rejected'')"
  let ?env = "exampleSyncEnv True None rejectAll"
  have matched: "find (\<lambda>b. q_task_id b = p_client_id ?p) [?e] = Some ?e"
    and failure: "p_status ?p = Failure"
    and rejected: "remote ?env (length (rs_sent (initialState retriedDb))) [?e]
        = Rejected ''Network Error''"
    and stored: "?e \<in> set (sync_queue retriedDb)"
    and limit: "3 \<le> q_retry_count ?e + 1"
    and ids: "distinct (map q_id [?e])"
    by (simp_all add: exampleEntry_def exampleResult_def exampleSyncEnv_def rejectAll_def
          retriedDb_def)
  have vals: "q_task_id ?e = ''t1''" "q_retry_count ?e + 1 = 3" "sync_clock ?env = 900"
    "(if p_status ?p = Conflict then ''Conflict without resolution data''
      else orDefault (p_error ?p) ''Unknown error'') = ''Rejected''"
    by (simp_all add: exampleEntry_def exampleResult_def exampleSyncEnv_def orDefault_def)
  note claim = failure_counted_on_entry
      [where processed = ?p and batch = "[?e]" and original = ?e and now = 900
         and st = "initialState retriedDb" and entry = ?e and message = "''Rejected''"
         and reported = "''Rejected''" and env = ?env and m = "''Network Error''"
         and db = retriedDb]
  have applied: "applyProcessed 900 [?e] ?p (initialState retriedDb) =
      Inr (recordFailure 900 ?e ''Rejected'' ''Rejected'' (initialState retriedDb))"
  proof -
    have "find (\<lambda>b. q_task_id b = p_client_id ?p) [?e] = Some ?e \<and>
        (p_status ?p = Failure \<or> (p_status ?p = Conflict \<and> p_resolved_data ?p = None))"
      using matched failure by (intro conjI disjI1)
    from claim [THEN conjunct1, THEN mp, OF this] show ?thesis
      by (simp only: vals)
  qed
  have batch: "rs_db (batchStep ?env [?e] (initialState retriedDb)) =
      handleSyncError 900 retriedDb ?e ''Network Error''"
    using claim [THEN conjunct2, THEN conjunct2, THEN conjunct1] rejected
    by (simp add: vals)
  have counted: "?e\<lparr> q_retry_count := 3, q_error_message := Some ''Rejected'' \<rparr>
      \<in> set (sync_queue (handleSyncError 900 retriedDb ?e ''Rejected''))"
    using claim [THEN conjunct2, THEN conjunct2, THEN conjunct2, THEN conjunct2, THEN conjunct2,
        THEN conjunct1] stored
    by (simp only: vals simp_thms)
  have all_marked: "\<forall>r \<in> set (tasks (handleSyncError 900 retriedDb ?e ''Rejected'')).
      row_id r = ''t1'' \<longrightarrow> row_sync_status r = Error"
    using claim [THEN conjunct2, THEN conjunct2, THEN conjunct2, THEN conjunct2, THEN conjunct2,
        THEN conjunct2, THEN conjunct1] limit
    by (simp only: vals simp_thms)
  have "hd (tasks (handleSyncError 900 retriedDb ?e ''Rejected''))
      \<in> set (tasks (handleSyncError 900 retriedDb ?e ''Rejected''))"
    and "row_id (hd (tasks (handleSyncError 900 retriedDb ?e ''Rejected''))) = ''t1''"
    by (simp_all add: handleSyncError_tasks retriedDb_def exampleEntry_def exampleRow_def)
  with all_marked
  have marked: "row_sync_status (hd (tasks (handleSyncError 900 retriedDb ?e ''Rejected''))) = Error"
    by blast
  from matched failure rejected stored limit ids applied batch counted marked show ?thesis
    by (intro conjI)
qed

text \<open>
  C3 as stated fails. A task has two entries in one batch and the reply holds one error
  result for each; both results are matched to the first entry, by task id. Two failures
  are counted, but the first entry's \<^verbatim>\<open>retry_count\<close> is 1 after the run, not 2, and
  the second entry's is still 0 with no message.
\<close>

theorem repeated_failure_counts_once:
  "sync (exampleSyncEnv True None twoErrorsForT1) sameTaskDb =
     Some (\<lparr> success = False, synced_items = 0, failed_items = 2,
             errors =
               [\<lparr> e_task_id = ''t1'', e_operation = Create, e_error = ''Rejected'',
                   e_timestamp = 900 \<rparr>,
                \<lparr> e_task_id = ''t1'', e_operation = Create, e_error = ''Rejected again'',
                   e_timestamp = 900 \<rparr>] \<rparr>,
           \<lparr> tasks = [exampleRow ''t1'' 0 200],
             sync_queue =
               [(exampleEntry ''q1'' ''t1'' Create 100 0)
                  \<lparr> q_retry_count := 1, q_error_message := Some ''Rejected again'' \<rparr>,
                exampleEntry ''q2'' ''t1'' Update 200 0] \<rparr>,
           [[exampleEntry ''q1'' ''t1'' Create 100 0, exampleEntry ''q2'' ''t1'' Update 200 0]])"
proof -
  have queue: "readQueue sameTaskDb =
      [exampleEntry ''q1'' ''t1'' Create 100 0, exampleEntry ''q2'' ''t1'' Update 200 0]"
    by (simp add: readQueue_def sameTaskDb_def exampleEntry_def)
  have groups: "chunks (nat 50) (readQueue sameTaskDb) =
      [[exampleEntry ''q1'' ''t1'' Create 100 0, exampleEntry ''q2'' ''t1'' Update 200 0]]"
    unfolding queue by (simp add: chunks_step)
  have positive: "(0::int) < 50"
    by simp
  show ?thesis
    unfolding sync_positive [OF default_env positive] groups
    by (simp add: summary_def initialState_def batchStep_def exampleSyncEnv_def
          twoErrorsForT1_def applyProcessed_def exampleResult_def exampleEntry_def
          sameTaskDb_def exampleRow_def recordFailure_def
          handleSyncError_def orDefault_def Let_def)
qed





text \<open>
  C7. With a positive batch size the run returns and transmits every batch, whatever the
  replies, and its summary holds the final values of the run's variables: both counters,
  \<^verbatim>\<open>success\<close> exactly when the failure counter is 0, and the error list, which has
  one record per counted failure. For every batch whose transmission is rejected, the step
  of the run that processes it adds the size of the batch to the failure counter, leaves
  the synced counter, and appends one record (task id, operation, message, time) per item,
  in batch order, carrying the message of the rejection (\<^verbatim>\<open>Batch failed\<close> when that
  message is empty); it removes no queue entry, and for a batch of entries with distinct
  ids it sets the \<^verbatim>\<open>retry_count\<close> of each item's stored entry to one more than the
  count read, with the message, and marks the task as error when that count is 3 or more.
  The run then goes on: the final error list and failure counter extend the ones reached
  after that batch. A batch whose reply is applied without an exception adds to the two
  counters the numbers of its results counted as synced and as failed.
\<close>

theorem failed_batch_recorded_run_continues:
  assumes size: "configuredBatchSize env = Num b" "0 < b"
  shows "sync env db =
           Some (\<lparr> success = (rs_failed (syncBatches env (initialState db) (chunks (nat b) (readQueue db))) = 0),
                   synced_items = rs_synced (syncBatches env (initialState db) (chunks (nat b) (readQueue db))),
                   failed_items = rs_failed (syncBatches env (initialState db) (chunks (nat b) (readQueue db))),
                   errors = rs_errors (syncBatches env (initialState db) (chunks (nat b) (readQueue db))) \<rparr>,
                 rs_db (syncBatches env (initialState db) (chunks (nat b) (readQueue db))), chunks (nat b) (readQueue db)) \<and>
         length (rs_errors (syncBatches env (initialState db) (chunks (nat b) (readQueue db)))) = rs_failed (syncBatches env (initialState db) (chunks (nat b) (readQueue db))) \<and>
         (\<forall>k < length (chunks (nat b) (readQueue db)). \<forall>m.
            remote env k ((chunks (nat b) (readQueue db)) ! k) = Rejected m \<longrightarrow>
            rs_failed (runAfter env db (chunks (nat b) (readQueue db)) (Suc k)) =
              rs_failed (runAfter env db (chunks (nat b) (readQueue db)) k) + length ((chunks (nat b) (readQueue db)) ! k) \<and>
            rs_synced (runAfter env db (chunks (nat b) (readQueue db)) (Suc k)) = rs_synced (runAfter env db (chunks (nat b) (readQueue db)) k) \<and>
            rs_errors (runAfter env db (chunks (nat b) (readQueue db)) (Suc k)) =
              rs_errors (runAfter env db (chunks (nat b) (readQueue db)) k) @
                map (\<lambda>item. \<lparr> e_task_id = q_task_id item, e_operation = q_operation item,
                              e_error = (if m = [] then ''Batch failed'' else m),
                              e_timestamp = sync_clock env \<rparr>) ((chunks (nat b) (readQueue db)) ! k) \<and>
            map q_id (sync_queue (rs_db (runAfter env db (chunks (nat b) (readQueue db)) (Suc k)))) =
              map q_id (sync_queue (rs_db (runAfter env db (chunks (nat b) (readQueue db)) k))) \<and>
            (distinct (map q_id ((chunks (nat b) (readQueue db)) ! k)) \<longrightarrow>
               (\<forall>item \<in> set ((chunks (nat b) (readQueue db)) ! k).
                  (\<forall>q \<in> set (sync_queue (rs_db (runAfter env db (chunks (nat b) (readQueue db)) (Suc k)))).
                     q_id q = q_id item \<longrightarrow>
                     q_retry_count q = q_retry_count item + 1 \<and> q_error_message q = Some m) \<and>
                  (item \<in> set (sync_queue (rs_db (runAfter env db (chunks (nat b) (readQueue db)) k))) \<longrightarrow>
                     item\<lparr> q_retry_count := q_retry_count item + 1, q_error_message := Some m \<rparr>
                       \<in> set (sync_queue (rs_db (runAfter env db (chunks (nat b) (readQueue db)) (Suc k))))))) \<and>
            (\<forall>item \<in> set ((chunks (nat b) (readQueue db)) ! k). 3 \<le> q_retry_count item + 1 \<longrightarrow>
               (\<forall>r \<in> set (tasks (rs_db (runAfter env db (chunks (nat b) (readQueue db)) (Suc k)))).
                  row_id r = q_task_id item \<longrightarrow> row_sync_status r = Error)) \<and>
            (\<exists>later.
               rs_errors (syncBatches env (initialState db) (chunks (nat b) (readQueue db))) = rs_errors (runAfter env db (chunks (nat b) (readQueue db)) (Suc k)) @ later \<and>
               rs_failed (syncBatches env (initialState db) (chunks (nat b) (readQueue db))) = rs_failed (runAfter env db (chunks (nat b) (readQueue db)) (Suc k)) + length later) \<and>
            rs_synced (runAfter env db (chunks (nat b) (readQueue db)) (Suc k)) \<le> rs_synced (syncBatches env (initialState db) (chunks (nat b) (readQueue db)))) \<and>
         (\<forall>k < length (chunks (nat b) (readQueue db)). \<forall>results.
            remote env k ((chunks (nat b) (readQueue db)) ! k) = Accepted results \<and>
            fst (applyResults (sync_clock env) ((chunks (nat b) (readQueue db)) ! k) results
                   ((runAfter env db (chunks (nat b) (readQueue db)) k)
                      \<lparr> rs_sent := rs_sent (runAfter env db (chunks (nat b) (readQueue db)) k) @ [(chunks (nat b) (readQueue db)) ! k] \<rparr>)) = None \<longrightarrow>
            rs_synced (runAfter env db (chunks (nat b) (readQueue db)) (Suc k)) =
              rs_synced (runAfter env db (chunks (nat b) (readQueue db)) k) + length (filter (countsSynced ((chunks (nat b) (readQueue db)) ! k)) results) \<and>
            rs_failed (runAfter env db (chunks (nat b) (readQueue db)) (Suc k)) =
              rs_failed (runAfter env db (chunks (nat b) (readQueue db)) k) + length (filter (countsFailed ((chunks (nat b) (readQueue db)) ! k)) results))"
proof (intro conjI)
  have run: "sync env db = Some (summary (syncBatches env (initialState db) (chunks (nat b) (readQueue db))))"
    using size by (rule sync_positive)
  show "sync env db =
           Some (\<lparr> success = (rs_failed (syncBatches env (initialState db) (chunks (nat b) (readQueue db))) = 0),
                   synced_items = rs_synced (syncBatches env (initialState db) (chunks (nat b) (readQueue db))),
                   failed_items = rs_failed (syncBatches env (initialState db) (chunks (nat b) (readQueue db))),
                   errors = rs_errors (syncBatches env (initialState db) (chunks (nat b) (readQueue db))) \<rparr>,
                 rs_db (syncBatches env (initialState db) (chunks (nat b) (readQueue db))), chunks (nat b) (readQueue db))"
    unfolding run by (simp add: summary_def syncBatches_frame(1))
  obtain new where "rs_errors (syncBatches env (initialState db) (chunks (nat b) (readQueue db))) = rs_errors (initialState db) @ new"
    "rs_failed (syncBatches env (initialState db) (chunks (nat b) (readQueue db))) = rs_failed (initialState db) + length new"
    using syncBatches_frame(2) [of env "initialState db" "chunks (nat b) (readQueue db)"] by auto
  then show "length (rs_errors (syncBatches env (initialState db) (chunks (nat b) (readQueue db)))) = rs_failed (syncBatches env (initialState db) (chunks (nat b) (readQueue db)))"
    by simp
  show "(\<forall>k < length (chunks (nat b) (readQueue db)). \<forall>m.
            remote env k ((chunks (nat b) (readQueue db)) ! k) = Rejected m \<longrightarrow>
            rs_failed (runAfter env db (chunks (nat b) (readQueue db)) (Suc k)) =
              rs_failed (runAfter env db (chunks (nat b) (readQueue db)) k) + length ((chunks (nat b) (readQueue db)) ! k) \<and>
            rs_synced (runAfter env db (chunks (nat b) (readQueue db)) (Suc k)) = rs_synced (runAfter env db (chunks (nat b) (readQueue db)) k) \<and>
            rs_errors (runAfter env db (chunks (nat b) (readQueue db)) (Suc k)) =
              rs_errors (runAfter env db (chunks (nat b) (readQueue db)) k) @
                map (\<lambda>item. \<lparr> e_task_id = q_task_id item, e_operation = q_operation item,
                              e_error = (if m = [] then ''Batch failed'' else m),
                              e_timestamp = sync_clock env \<rparr>) ((chunks (nat b) (readQueue db)) ! k) \<and>
            map q_id (sync_queue (rs_db (runAfter env db (chunks (nat b) (readQueue db)) (Suc k)))) =
              map q_id (sync_queue (rs_db (runAfter env db (chunks (nat b) (readQueue db)) k))) \<and>
            (distinct (map q_id ((chunks (nat b) (readQueue db)) ! k)) \<longrightarrow>
               (\<forall>item \<in> set ((chunks (nat b) (readQueue db)) ! k).
                  (\<forall>q \<in> set (sync_queue (rs_db (runAfter env db (chunks (nat b) (readQueue db)) (Suc k)))).
                     q_id q = q_id item \<longrightarrow>
                     q_retry_count q = q_retry_count item + 1 \<and> q_error_message q = Some m) \<and>
                  (item \<in> set (sync_queue (rs_db (runAfter env db (chunks (nat b) (readQueue db)) k))) \<longrightarrow>
                     item\<lparr> q_retry_count := q_retry_count item + 1, q_error_message := Some m \<rparr>
                       \<in> set (sync_queue (rs_db (runAfter env db (chunks (nat b) (readQueue db)) (Suc k))))))) \<and>
            (\<forall>item \<in> set ((chunks (nat b) (readQueue db)) ! k). 3 \<le> q_retry_count item + 1 \<longrightarrow>
               (\<forall>r \<in> set (tasks (rs_db (runAfter env db (chunks (nat b) (readQueue db)) (Suc k)))).
                  row_id r = q_task_id item \<longrightarrow> row_sync_status r = Error)) \<and>
            (\<exists>later.
               rs_errors (syncBatches env (initialState db) (chunks (nat b) (readQueue db))) = rs_errors (runAfter env db (chunks (nat b) (readQueue db)) (Suc k)) @ later \<and>
               rs_failed (syncBatches env (initialState db) (chunks (nat b) (readQueue db))) = rs_failed (runAfter env db (chunks (nat b) (readQueue db)) (Suc k)) + length later) \<and>
            rs_synced (runAfter env db (chunks (nat b) (readQueue db)) (Suc k)) \<le> rs_synced (syncBatches env (initialState db) (chunks (nat b) (readQueue db))))"
  proof (intro allI impI)
    fix k m
    assume k: "k < length (chunks (nat b) (readQueue db))"
      and rejected: "remote env k ((chunks (nat b) (readQueue db)) ! k) = Rejected m"
    note step = runAfter_rejected [OF k rejected, of db]
    have ids: "map q_id (sync_queue (rs_db (runAfter env db (chunks (nat b) (readQueue db)) (Suc k)))) =
              map q_id (sync_queue (rs_db (runAfter env db (chunks (nat b) (readQueue db)) k)))"
      unfolding step(4) by (rule failed_batch_ids)
    have entries: "distinct (map q_id ((chunks (nat b) (readQueue db)) ! k)) \<longrightarrow>
               (\<forall>item \<in> set ((chunks (nat b) (readQueue db)) ! k).
                  (\<forall>q \<in> set (sync_queue (rs_db (runAfter env db (chunks (nat b) (readQueue db)) (Suc k)))).
                     q_id q = q_id item \<longrightarrow>
                     q_retry_count q = q_retry_count item + 1 \<and> q_error_message q = Some m) \<and>
                  (item \<in> set (sync_queue (rs_db (runAfter env db (chunks (nat b) (readQueue db)) k))) \<longrightarrow>
                     item\<lparr> q_retry_count := q_retry_count item + 1, q_error_message := Some m \<rparr>
                       \<in> set (sync_queue (rs_db (runAfter env db (chunks (nat b) (readQueue db)) (Suc k))))))"
      unfolding step(4)
      using failed_batch_entry [where batch = "(chunks (nat b) (readQueue db)) ! k" and now = "sync_clock env" and m = m]
        failed_batch_stored_entry [where batch = "(chunks (nat b) (readQueue db)) ! k" and now = "sync_clock env" and m = m]
      by (intro impI ballI conjI) blast+
    have marked: "\<forall>item \<in> set ((chunks (nat b) (readQueue db)) ! k). 3 \<le> q_retry_count item + 1 \<longrightarrow>
               (\<forall>r \<in> set (tasks (rs_db (runAfter env db (chunks (nat b) (readQueue db)) (Suc k)))).
                  row_id r = q_task_id item \<longrightarrow> row_sync_status r = Error)"
      unfolding step(4)
      using failed_batch_marks_error [where batch = "(chunks (nat b) (readQueue db)) ! k" and now = "sync_clock env" and m = m]
      by (intro impI ballI) blast
    show "rs_failed (runAfter env db (chunks (nat b) (readQueue db)) (Suc k)) =
              rs_failed (runAfter env db (chunks (nat b) (readQueue db)) k) + length ((chunks (nat b) (readQueue db)) ! k) \<and>
            rs_synced (runAfter env db (chunks (nat b) (readQueue db)) (Suc k)) = rs_synced (runAfter env db (chunks (nat b) (readQueue db)) k) \<and>
            rs_errors (runAfter env db (chunks (nat b) (readQueue db)) (Suc k)) =
              rs_errors (runAfter env db (chunks (nat b) (readQueue db)) k) @
                map (\<lambda>item. \<lparr> e_task_id = q_task_id item, e_operation = q_operation item,
                              e_error = (if m = [] then ''Batch failed'' else m),
                              e_timestamp = sync_clock env \<rparr>) ((chunks (nat b) (readQueue db)) ! k) \<and>
            map q_id (sync_queue (rs_db (runAfter env db (chunks (nat b) (readQueue db)) (Suc k)))) =
              map q_id (sync_queue (rs_db (runAfter env db (chunks (nat b) (readQueue db)) k))) \<and>
            (distinct (map q_id ((chunks (nat b) (readQueue db)) ! k)) \<longrightarrow>
               (\<forall>item \<in> set ((chunks (nat b) (readQueue db)) ! k).
                  (\<forall>q \<in> set (sync_queue (rs_db (runAfter env db (chunks (nat b) (readQueue db)) (Suc k)))).
                     q_id q = q_id item \<longrightarrow>
                     q_retry_count q = q_retry_count item + 1 \<and> q_error_message q = Some m) \<and>
                  (item \<in> set (sync_queue (rs_db (runAfter env db (chunks (nat b) (readQueue db)) k))) \<longrightarrow>
                     item\<lparr> q_retry_count := q_retry_count item + 1, q_error_message := Some m \<rparr>
                       \<in> set (sync_queue (rs_db (runAfter env db (chunks (nat b) (readQueue db)) (Suc k))))))) \<and>
            (\<forall>item \<in> set ((chunks (nat b) (readQueue db)) ! k). 3 \<le> q_retry_count item + 1 \<longrightarrow>
               (\<forall>r \<in> set (tasks (rs_db (runAfter env db (chunks (nat b) (readQueue db)) (Suc k)))).
                  row_id r = q_task_id item \<longrightarrow> row_sync_status r = Error)) \<and>
            (\<exists>later.
               rs_errors (syncBatches env (initialState db) (chunks (nat b) (readQueue db))) = rs_errors (runAfter env db (chunks (nat b) (readQueue db)) (Suc k)) @ later \<and>
               rs_failed (syncBatches env (initialState db) (chunks (nat b) (readQueue db))) = rs_failed (runAfter env db (chunks (nat b) (readQueue db)) (Suc k)) + length later) \<and>
            rs_synced (runAfter env db (chunks (nat b) (readQueue db)) (Suc k)) \<le> rs_synced (syncBatches env (initialState db) (chunks (nat b) (readQueue db)))"
      by (intro conjI, rule step(1), rule step(2), rule step(3), rule ids, rule entries,
          rule marked, rule run_grows_after(1), rule run_grows_after(2))
  qed
  show "(\<forall>k < length (chunks (nat b) (readQueue db)). \<forall>results.
            remote env k ((chunks (nat b) (readQueue db)) ! k) = Accepted results \<and>
            fst (applyResults (sync_clock env) ((chunks (nat b) (readQueue db)) ! k) results
                   ((runAfter env db (chunks (nat b) (readQueue db)) k)
                      \<lparr> rs_sent := rs_sent (runAfter env db (chunks (nat b) (readQueue db)) k) @ [(chunks (nat b) (readQueue db)) ! k] \<rparr>)) = None \<longrightarrow>
            rs_synced (runAfter env db (chunks (nat b) (readQueue db)) (Suc k)) =
              rs_synced (runAfter env db (chunks (nat b) (readQueue db)) k) + length (filter (countsSynced ((chunks (nat b) (readQueue db)) ! k)) results) \<and>
            rs_failed (runAfter env db (chunks (nat b) (readQueue db)) (Suc k)) =
              rs_failed (runAfter env db (chunks (nat b) (readQueue db)) k) + length (filter (countsFailed ((chunks (nat b) (readQueue db)) ! k)) results))"
  proof (intro allI impI, elim conjE)
    fix k results
    assume k: "k < length (chunks (nat b) (readQueue db))"
      and reply: "remote env k ((chunks (nat b) (readQueue db)) ! k) = Accepted results"
      and clean: "fst (applyResults (sync_clock env) ((chunks (nat b) (readQueue db)) ! k) results
                   ((runAfter env db (chunks (nat b) (readQueue db)) k)
                      \<lparr> rs_sent := rs_sent (runAfter env db (chunks (nat b) (readQueue db)) k) @ [(chunks (nat b) (readQueue db)) ! k] \<rparr>)) = None"
    show "rs_synced (runAfter env db (chunks (nat b) (readQueue db)) (Suc k)) =
              rs_synced (runAfter env db (chunks (nat b) (readQueue db)) k) + length (filter (countsSynced ((chunks (nat b) (readQueue db)) ! k)) results) \<and>
            rs_failed (runAfter env db (chunks (nat b) (readQueue db)) (Suc k)) =
              rs_failed (runAfter env db (chunks (nat b) (readQueue db)) k) + length (filter (countsFailed ((chunks (nat b) (readQueue db)) ! k)) results)"
      by (intro conjI) (rule runAfter_accepted [OF k reply clean])+
  qed
qed


theorem failed_batch_recorded_run_continues_witness:
  "(configuredBatchSize (exampleSyncEnv True (Some ''2'') rejectFirst) = Num 2 \<and> (0::int) < 2 \<and>
    remote (exampleSyncEnv True (Some ''2'') rejectFirst) 0 [exampleEntry ''q1'' ''t1'' Create 10 0, exampleEntry ''q2'' ''t2'' Create 20 0]
      = Rejected ''Network Error'' \<and>
    remote (exampleSyncEnv True (Some ''2'') rejectFirst) 1 [exampleEntry ''q3'' ''t3'' Create 30 0]
      = Accepted [exampleResult ''t3'' Success (Some ''srv-3'') None None] \<and>
    distinct (map q_id [exampleEntry ''q1'' ''t1'' Create 10 0, exampleEntry ''q2'' ''t2'' Create 20 0])) \<and>
   rs_errors (runAfter (exampleSyncEnv True (Some ''2'') rejectFirst) unorderedDb
                [[exampleEntry ''q1'' ''t1'' Create 10 0, exampleEntry ''q2'' ''t2'' Create 20 0], [exampleEntry ''q3'' ''t3'' Create 30 0]] (Suc 0)) =
     [\<lparr> e_task_id = ''t1'', e_operation = Create, e_error = ''Network Error'',
         e_timestamp = 900 \<rparr>,
      \<lparr> e_task_id = ''t2'', e_operation = Create, e_error = ''Network Error'',
         e_timestamp = 900 \<rparr>] \<and>
   (exampleEntry ''q1'' ''t1'' Create 10 0)\<lparr> q_retry_count := 1, q_error_message := Some ''Network Error'' \<rparr>
     \<in> set (sync_queue (rs_db (runAfter (exampleSyncEnv True (Some ''2'') rejectFirst) unorderedDb
                [[exampleEntry ''q1'' ''t1'' Create 10 0, exampleEntry ''q2'' ''t2'' Create 20 0], [exampleEntry ''q3'' ''t3'' Create 30 0]] (Suc 0)))) \<and>
   sync (exampleSyncEnv True (Some ''2'') rejectFirst) unorderedDb =
     Some (\<lparr> success = False, synced_items = 1, failed_items = 2,
             errors =
               [\<lparr> e_task_id = ''t1'', e_operation = Create, e_error = ''Network Error'',
                   e_timestamp = 900 \<rparr>,
                \<lparr> e_task_id = ''t2'', e_operation = Create, e_error = ''Network Error'',
                   e_timestamp = 900 \<rparr>] \<rparr>,
           \<lparr> tasks = [exampleRow ''t1'' 0 10, exampleRow ''t2'' 0 20,
                      (exampleRow ''t3'' 0 30)
                        \<lparr> row_sync_status := Synced, row_server_id := Some ''srv-3'',
                          row_last_synced_at := Some 900 \<rparr>],
             sync_queue =
               [(exampleEntry ''q1'' ''t1'' Create 10 0)\<lparr> q_retry_count := 1, q_error_message := Some ''Network Error'' \<rparr>,
                (exampleEntry ''q2'' ''t2'' Create 20 0)\<lparr> q_retry_count := 1, q_error_message := Some ''Network Error'' \<rparr>] \<rparr>,
           [[exampleEntry ''q1'' ''t1'' Create 10 0, exampleEntry ''q2'' ''t2'' Create 20 0], [exampleEntry ''q3'' ''t3'' Create 30 0]])"
proof -
  let ?env = "exampleSyncEnv True (Some ''2'') rejectFirst"
  let ?cs = "[[exampleEntry ''q1'' ''t1'' Create 10 0, exampleEntry ''q2'' ''t2'' Create 20 0], [exampleEntry ''q3'' ''t3'' Create 30 0]]"
  have size: "configuredBatchSize ?env = Num 2"
    by (simp add: configuredBatchSize_def exampleSyncEnv_def parseInt10_def isWhiteSpace_def
          isDigit_def)
  have positive: "(0::int) < 2"
    by simp
  have queue: "readQueue unorderedDb = [exampleEntry ''q1'' ''t1'' Create 10 0, exampleEntry ''q2'' ''t2'' Create 20 0, exampleEntry ''q3'' ''t3'' Create 30 0]"
    by (simp add: readQueue_def unorderedDb_def exampleEntry_def)
  have groups: "chunks (nat 2) (readQueue unorderedDb) = ?cs"
    unfolding queue by (simp add: chunks_step)
  have rejected: "remote ?env 0 [exampleEntry ''q1'' ''t1'' Create 10 0, exampleEntry ''q2'' ''t2'' Create 20 0] = Rejected ''Network Error''"
    and accepted: "remote ?env 1 [exampleEntry ''q3'' ''t3'' Create 30 0]
        = Accepted [exampleResult ''t3'' Success (Some ''srv-3'') None None]"
    by (simp_all add: exampleSyncEnv_def rejectFirst_def)
  have ids: "distinct (map q_id [exampleEntry ''q1'' ''t1'' Create 10 0, exampleEntry ''q2'' ''t2'' Create 20 0])"
    by (simp add: exampleEntry_def)
  have start: "runAfter ?env unorderedDb ?cs 0 = initialState unorderedDb"
    by (simp add: runAfter_def)
  have stored: "exampleEntry ''q1'' ''t1'' Create 10 0 \<in> set (sync_queue (rs_db (runAfter ?env unorderedDb ?cs 0)))"
    unfolding start by (simp add: unorderedDb_def)
  note claim = failed_batch_recorded_run_continues [OF size positive, of unorderedDb,
      unfolded groups]
  have first: "0 < length ?cs" "remote ?env 0 (?cs ! 0) = Rejected ''Network Error''"
    using rejected by simp_all
  note step = claim [THEN conjunct2, THEN conjunct2, THEN conjunct1, rule_format, OF first]
  have errors: "rs_errors (runAfter ?env unorderedDb ?cs (Suc 0)) =
      [\<lparr> e_task_id = ''t1'', e_operation = Create, e_error = ''Network Error'',
          e_timestamp = 900 \<rparr>,
       \<lparr> e_task_id = ''t2'', e_operation = Create, e_error = ''Network Error'',
          e_timestamp = 900 \<rparr>]"
    using step [THEN conjunct2, THEN conjunct2, THEN conjunct1, unfolded start]
    by (simp add: exampleEntry_def exampleSyncEnv_def)
  have "distinct (map q_id (?cs ! 0))" "exampleEntry ''q1'' ''t1'' Create 10 0 \<in> set (?cs ! 0)"
    using ids by simp_all
  from step [THEN conjunct2, THEN conjunct2, THEN conjunct2, THEN conjunct2, THEN conjunct1,
      THEN mp, OF this(1), THEN bspec, OF this(2), THEN conjunct2, THEN mp, OF stored]
  have counted: "(exampleEntry ''q1'' ''t1'' Create 10 0)\<lparr> q_retry_count := 1, q_error_message := Some ''Network Error'' \<rparr>
      \<in> set (sync_queue (rs_db (runAfter ?env unorderedDb ?cs (Suc 0))))"
    by (simp add: exampleEntry_def)
  have final: "syncBatches ?env (initialState unorderedDb) ?cs =
      \<lparr> rs_db =
          \<lparr> tasks = [exampleRow ''t1'' 0 10, exampleRow ''t2'' 0 20,
                     (exampleRow ''t3'' 0 30)
                       \<lparr> row_sync_status := Synced, row_server_id := Some ''srv-3'',
                         row_last_synced_at := Some 900 \<rparr>],
            sync_queue =
              [(exampleEntry ''q1'' ''t1'' Create 10 0)\<lparr> q_retry_count := 1, q_error_message := Some ''Network Error'' \<rparr>,
               (exampleEntry ''q2'' ''t2'' Create 20 0)\<lparr> q_retry_count := 1, q_error_message := Some ''Network Error'' \<rparr>] \<rparr>,
        rs_synced = 1, rs_failed = 2,
        rs_errors =
          [\<lparr> e_task_id = ''t1'', e_operation = Create, e_error = ''Network Error'',
              e_timestamp = 900 \<rparr>,
           \<lparr> e_task_id = ''t2'', e_operation = Create, e_error = ''Network Error'',
              e_timestamp = 900 \<rparr>],
        rs_sent = ?cs \<rparr>"
    by (simp add: initialState_def batchStep_def exampleSyncEnv_def rejectFirst_def
          applyProcessed_def exampleResult_def exampleEntry_def unorderedDb_def exampleRow_def
          recordFailure_def handleSyncError_def updateSyncStatus_def orDefault_def Let_def)
  have run: "sync ?env unorderedDb =
     Some (\<lparr> success = False, synced_items = 1, failed_items = 2,
             errors =
               [\<lparr> e_task_id = ''t1'', e_operation = Create, e_error = ''Network Error'',
                   e_timestamp = 900 \<rparr>,
                \<lparr> e_task_id = ''t2'', e_operation = Create, e_error = ''Network Error'',
                   e_timestamp = 900 \<rparr>] \<rparr>,
           \<lparr> tasks = [exampleRow ''t1'' 0 10, exampleRow ''t2'' 0 20,
                      (exampleRow ''t3'' 0 30)
                        \<lparr> row_sync_status := Synced, row_server_id := Some ''srv-3'',
                          row_last_synced_at := Some 900 \<rparr>],
             sync_queue =
               [(exampleEntry ''q1'' ''t1'' Create 10 0)\<lparr> q_retry_count := 1, q_error_message := Some ''Network Error'' \<rparr>,
                (exampleEntry ''q2'' ''t2'' Create 20 0)\<lparr> q_retry_count := 1, q_error_message := Some ''Network Error'' \<rparr>] \<rparr>,
           ?cs)"
    using claim [THEN conjunct1] unfolding final by simp
  from size positive rejected accepted ids errors counted run show ?thesis
    by (intro conjI)
qed





end
